theory Spec2Isabelle
  imports Complex_Main
begin

section \<open>Python values\<close>

text \<open>Exceptions are values: a function that can raise returns \<open>py_error + 'a\<close>.\<close>

datatype py_error = ZeroDivisionError | KeyError | ValueError | OverflowError

text \<open>\<open>str.lower()\<close> on the ASCII letters.\<close>

definition lower_char :: "char \<Rightarrow> char" where
  "lower_char c =
     (case map_of (zip ''ABCDEFGHIJKLMNOPQRSTUVWXYZ'' ''abcdefghijklmnopqrstuvwxyz'') c of
        Some d \<Rightarrow> d
      | None \<Rightarrow> c)"

definition lower :: "string \<Rightarrow> string" where
  "lower s = map lower_char s"

text \<open>
  The slice \<open>xs[:m]\<close>: the first \<open>m\<close> elements, and for a negative \<open>m\<close> all but the
  last \<open>-m\<close>.
\<close>

definition slice_to :: "'a list \<Rightarrow> int \<Rightarrow> 'a list" where
  "slice_to xs m =
     (if 0 \<le> m then take (nat m) xs else take (nat (int (length xs) + m)) xs)"

section \<open>Floating-point values\<close>

text \<open>
  A float is a real number, an infinity or a NaN; the sign of a zero is not modelled. A
  float that is an argument or a field (a price, a quantity, a volatility) is a finite
  double, given as the real number it denotes. The operations \<open>f_add\<close>, \<open>f_mul\<close>, ...
  compute on finite operands without rounding; those that round follow further down.
\<close>

datatype float64 = Finite real | PosInf | NegInf | NaN

fun f_neg :: "float64 \<Rightarrow> float64" where
  "f_neg (Finite x) = Finite (- x)"
| "f_neg PosInf = NegInf"
| "f_neg NegInf = PosInf"
| "f_neg NaN = NaN"

fun f_add :: "float64 \<Rightarrow> float64 \<Rightarrow> float64" where
  "f_add (Finite x) (Finite y) = Finite (x + y)"
| "f_add NaN b = NaN"
| "f_add a NaN = NaN"
| "f_add PosInf NegInf = NaN"
| "f_add NegInf PosInf = NaN"
| "f_add PosInf b = PosInf"
| "f_add a PosInf = PosInf"
| "f_add NegInf b = NegInf"
| "f_add a NegInf = NegInf"

definition f_sub :: "float64 \<Rightarrow> float64 \<Rightarrow> float64" where
  "f_sub a b = f_add a (f_neg b)"

text \<open>The sign of a float that is not a NaN, and the infinity of a sign.\<close>

fun f_sign :: "float64 \<Rightarrow> real" where
  "f_sign (Finite x) = sgn x"
| "f_sign PosInf = 1"
| "f_sign NegInf = - 1"
| "f_sign NaN = 0"

definition inf_of_sign :: "real \<Rightarrow> float64" where
  "inf_of_sign s = (if s = 0 then NaN else if 0 < s then PosInf else NegInf)"

fun f_mul :: "float64 \<Rightarrow> float64 \<Rightarrow> float64" where
  "f_mul (Finite x) (Finite y) = Finite (x * y)"
| "f_mul NaN b = NaN"
| "f_mul a NaN = NaN"
| "f_mul a b = inf_of_sign (f_sign a * f_sign b)"

text \<open>
  Division as numpy performs it: a finite number divided by zero is an infinity, or a
  NaN when the number is zero too (a warning, no exception).
\<close>

fun f_div :: "float64 \<Rightarrow> float64 \<Rightarrow> float64" where
  "f_div (Finite x) (Finite y) = (if y = 0 then inf_of_sign (sgn x) else Finite (x / y))"
| "f_div NaN b = NaN"
| "f_div a NaN = NaN"
| "f_div (Finite x) b = Finite 0"
| "f_div a (Finite y) = inf_of_sign (f_sign a * (if y < 0 then - 1 else 1))"
| "f_div a b = NaN"

fun f_abs :: "float64 \<Rightarrow> float64" where
  "f_abs (Finite x) = Finite \<bar>x\<bar>"
| "f_abs PosInf = PosInf"
| "f_abs NegInf = PosInf"
| "f_abs NaN = NaN"

text \<open>The comparison \<open>a < b\<close>; every comparison with a NaN is false.\<close>

fun f_less :: "float64 \<Rightarrow> float64 \<Rightarrow> bool" where
  "f_less (Finite x) (Finite y) = (x < y)"
| "f_less NaN b = False"
| "f_less a NaN = False"
| "f_less a PosInf = (a \<noteq> PosInf)"
| "f_less NegInf b = (b \<noteq> NegInf)"
| "f_less a b = False"

fun f_sqrt :: "float64 \<Rightarrow> float64" where
  "f_sqrt (Finite x) = (if x < 0 then NaN else Finite (sqrt x))"
| "f_sqrt PosInf = PosInf"
| "f_sqrt a = NaN"

fun f_sinh :: "float64 \<Rightarrow> float64" where
  "f_sinh (Finite x) = Finite (sinh x)"
| "f_sinh a = a"

fun f_tanh :: "float64 \<Rightarrow> float64" where
  "f_tanh (Finite x) = Finite (tanh x)"
| "f_tanh PosInf = Finite 1"
| "f_tanh NegInf = Finite (- 1)"
| "f_tanh NaN = NaN"

fun f_log1p :: "float64 \<Rightarrow> float64" where
  "f_log1p (Finite x) = (if - 1 < x then Finite (ln (1 + x)) else if x = - 1 then NegInf else NaN)"
| "f_log1p PosInf = PosInf"
| "f_log1p a = NaN"

text \<open>
  Python's \<open>min(a, b)\<close> and \<open>max(a, b)\<close> return \<open>a\<close> unless \<open>b\<close> compares smaller
  (larger).
\<close>

definition py_min :: "float64 \<Rightarrow> float64 \<Rightarrow> float64" where
  "py_min a b = (if f_less b a then b else a)"

definition py_max :: "float64 \<Rightarrow> float64 \<Rightarrow> float64" where
  "py_max a b = (if f_less a b then b else a)"

text \<open>
  A float with its runtime type. The type decides what a division by zero does: Python's
  \<open>float\<close> raises \<open>ZeroDivisionError\<close>, \<open>numpy.float64\<close> returns an infinity or a NaN. An
  operation with a \<open>numpy.float64\<close> operand yields a \<open>numpy.float64\<close>.
\<close>

datatype num = PyFloat float64 | NpFloat64 float64

fun val :: "num \<Rightarrow> float64" where
  "val (PyFloat a) = a"
| "val (NpFloat64 a) = a"

fun is_np :: "num \<Rightarrow> bool" where
  "is_np (PyFloat a) = False"
| "is_np (NpFloat64 a) = True"

definition num_op :: "(float64 \<Rightarrow> float64 \<Rightarrow> float64) \<Rightarrow> num \<Rightarrow> num \<Rightarrow> num" where
  "num_op f a b =
     (if is_np a \<or> is_np b then NpFloat64 (f (val a) (val b)) else PyFloat (f (val a) (val b)))"

definition num_add :: "num \<Rightarrow> num \<Rightarrow> num" where
  "num_add = num_op f_add"

definition num_mul :: "num \<Rightarrow> num \<Rightarrow> num" where
  "num_mul = num_op f_mul"

definition truediv :: "num \<Rightarrow> num \<Rightarrow> py_error + num" where
  "truediv a b =
     (if is_np a \<or> is_np b then Inr (NpFloat64 (f_div (val a) (val b)))
      else if val b = Finite 0 then Inl ZeroDivisionError
      else Inr (PyFloat (f_div (val a) (val b))))"

subsection \<open>Rounding to a double\<close>

text \<open>
  Where a result depends on rounding or on the range of a double, the arithmetic is that
  of IEEE 754 binary64: the exact result is rounded to the nearest double, ties to the
  even one, with the spacing \<open>quantum\<close> of the doubles around it (subnormal below
  \<open>2\<^sup>-\<^sup>1\<^sup>0\<^sup>2\<^sup>2\<close>), and a rounded result beyond \<open>max_double\<close> is an infinity.
\<close>

definition round_even :: "real \<Rightarrow> int" where
  "round_even r =
     (let f = \<lfloor>r\<rfloor>
      in if r - of_int f < 1 / 2 then f
         else if 1 / 2 < r - of_int f then f + 1
         else if even f then f else f + 1)"

definition binade :: "real \<Rightarrow> int" where
  "binade x = \<lfloor>log 2 \<bar>x\<bar>\<rfloor>"

definition quantum :: "real \<Rightarrow> real" where
  "quantum x = 2 powi (max (binade x) (- 1022) - 52)"

definition rd :: "real \<Rightarrow> real" where
  "rd x = (if x = 0 then 0 else of_int (round_even (x / quantum x)) * quantum x)"

definition max_double :: real where
  "max_double = (2 ^ 53 - 1) * 2 ^ 971"

definition fl :: "real \<Rightarrow> float64" where
  "fl x =
     (let y = rd x
      in if max_double < y then PosInf else if y < - max_double then NegInf else Finite y)"

text \<open>
  The arithmetic of doubles: the exact result, rounded; otherwise as above. \<open>np.sinh\<close> is
  taken to round correctly as well; the results below use of it only that \<open>sinh 0\<close> is 0
  and that the hyperbolic sine of a positive number of moderate size is neither 0 nor a
  NaN.
\<close>

fun d_add :: "float64 \<Rightarrow> float64 \<Rightarrow> float64" where
  "d_add (Finite x) (Finite y) = fl (x + y)"
| "d_add a b = f_add a b"

fun d_sub :: "float64 \<Rightarrow> float64 \<Rightarrow> float64" where
  "d_sub (Finite x) (Finite y) = fl (x - y)"
| "d_sub a b = f_sub a b"

fun d_mul :: "float64 \<Rightarrow> float64 \<Rightarrow> float64" where
  "d_mul (Finite x) (Finite y) = fl (x * y)"
| "d_mul a b = f_mul a b"

fun d_div :: "float64 \<Rightarrow> float64 \<Rightarrow> float64" where
  "d_div (Finite x) (Finite y) = (if y = 0 then inf_of_sign (sgn x) else fl (x / y))"
| "d_div a b = f_div a b"

fun d_sqrt :: "float64 \<Rightarrow> float64" where
  "d_sqrt (Finite x) = (if x < 0 then NaN else fl (sqrt x))"
| "d_sqrt a = f_sqrt a"

fun d_sinh :: "float64 \<Rightarrow> float64" where
  "d_sinh (Finite x) = fl (sinh x)"
| "d_sinh a = f_sinh a"

text \<open>
  \<open>x ** 2\<close> on a Python float raises \<open>OverflowError\<close> when the square of a finite \<open>x\<close>
  is beyond the range of a double.
\<close>

definition pow_overflows :: "real \<Rightarrow> bool" where
  "pow_overflows x \<longleftrightarrow> fl (x * x) = PosInf"

fun py_pow2 :: "float64 \<Rightarrow> py_error + float64" where
  "py_pow2 (Finite x) = (if pow_overflows x then Inl OverflowError else Inr (fl (x * x)))"
| "py_pow2 NaN = Inr NaN"
| "py_pow2 a = Inr PosInf"

text \<open>
  Python's \<open>sum\<close> of floats: from 0, left to right, each addition rounded. (From Python
  3.12 on \<open>sum\<close> carries a compensation term as well; it changes neither a sum whose
  additions are all exact nor one that overflows.)
\<close>

definition py_sum :: "real list \<Rightarrow> float64" where
  "py_sum xs = foldl d_add (Finite 0) (map Finite xs)"


section \<open>The order book (src/data/orderbook.py)\<close>

type_synonym level = "real \<times> real"

text \<open>
  The fields of \<open>Orderbook\<close>; \<open>timestamp\<close>, \<open>exchange\<close> and \<open>symbol\<close> carry the prefix
  \<open>ob_\<close>. The wall-clock bookkeeping (\<open>last_update_time\<close>,
  \<open>processing_times\<close>) is left out: it does not influence the book.
\<close>

record orderbook =
  max_depth :: int
  asks :: "level list"
  bids :: "level list"
  ob_timestamp :: "string option"
  ob_exchange :: "string option"
  ob_symbol :: "string option"

text \<open>\<open>Orderbook.__init__\<close>\<close>

definition init_orderbook :: "int \<Rightarrow> orderbook" where
  "init_orderbook md =
     \<lparr>max_depth = md, asks = [], bids = [],
      ob_timestamp = None, ob_exchange = None,
      ob_symbol = None\<rparr>"

text \<open>
  The snapshot dictionary handed to \<open>update\<close>, with the decimal strings already read as
  numbers; an absent key is \<open>None\<close> (\<open>data.get('asks', [])\<close> then yields the empty list).
\<close>

record snapshot =
  s_timestamp :: "string option"
  s_exchange :: "string option"
  s_symbol :: "string option"
  s_asks :: "level list option"
  s_bids :: "level list option"

definition get_levels :: "level list option \<Rightarrow> level list" where
  "get_levels l = (case l of None \<Rightarrow> [] | Some ls \<Rightarrow> ls)"

text \<open>
  \<open>Orderbook.update\<close>. Python's \<open>sorted\<close> is stable, also with \<open>reverse=True\<close>; the
  descending stable sort is the stable sort on the negated key.
\<close>

definition update :: "orderbook \<Rightarrow> snapshot \<Rightarrow> orderbook" where
  "update ob data =
     ob\<lparr>ob_timestamp := s_timestamp data,
        ob_exchange := s_exchange data,
        ob_symbol := s_symbol data,
        asks := slice_to (sort_key fst (get_levels (s_asks data))) (max_depth ob),
        bids := slice_to (sort_key (\<lambda>x. - fst x) (get_levels (s_bids data))) (max_depth ob)\<rparr>"

definition get_mid_price :: "orderbook \<Rightarrow> real option" where
  "get_mid_price ob =
     (if asks ob = [] \<or> bids ob = [] then None
      else Some ((fst (hd (asks ob)) + fst (hd (bids ob))) / 2))"

definition get_spread :: "orderbook \<Rightarrow> real option" where
  "get_spread ob =
     (if asks ob = [] \<or> bids ob = [] then None
      else Some (fst (hd (asks ob)) - fst (hd (bids ob))))"






text \<open>
  \<open>get_orderbook_imbalance\<close>: the two volumes are sums of doubles, and the quotient is
  that of two doubles.
\<close>

definition get_orderbook_imbalance :: "orderbook \<Rightarrow> float64 option" where
  "get_orderbook_imbalance ob =
     (if asks ob = [] \<or> bids ob = [] then None
      else let bid_volume = py_sum (map snd (bids ob));
               ask_volume = py_sum (map snd (asks ob));
               total_volume = d_add bid_volume ask_volume
           in if total_volume = Finite 0 then Some (Finite 0)
              else Some (d_div (d_sub bid_volume ask_volume) total_volume))"


text \<open>
  The requests on which the two loops do not round: the volume and the quantities of the
  side are multiples of \<open>2\<^sup>-\<^sup>k\<close>, and their magnitudes add up to less than \<open>2\<^sup>5\<^sup>3\<close> such
  multiples, so that every partial sum and every remainder is a double.
\<close>

definition on_grid :: "nat \<Rightarrow> real \<Rightarrow> bool" where
  "on_grid k x \<longleftrightarrow> of_int \<lfloor>x * 2 ^ k\<rfloor> = x * 2 ^ k"



definition sample_book :: orderbook where
  "sample_book =
     \<lparr>max_depth = 50,
      asks = [(45000.5, 1.5), (45001, 2), (45002, 3), (45003, 4), (45004, 5)],
      bids = [(44999.5, 1), (44999, 2), (44998, 3), (44997, 4), (44996, 5)],
      ob_timestamp = Some ''2023-05-04T10:39:13Z'',
      ob_exchange = Some ''OKX'',
      ob_symbol = Some ''BTC-USDT-SWAP''\<rparr>"


text \<open>
  A book with two bids of quantity \<open>1e308\<close> (the double of that literal) and one ask of
  quantity 1.
\<close>

definition overflow_book :: orderbook where
  "overflow_book =
     (init_orderbook 50)\<lparr>asks := [(101, 1)], bids := [(100, rd (10 ^ 308)), (99, rd (10 ^ 308))]\<rparr>"

section \<open>The fee model (src/models/fee_model.py)\<close>

text \<open>
  The fee table is the nested dictionary \<open>exchange \<rightarrow> market type \<rightarrow> order type \<rightarrow> tier \<rightarrow> rate\<close>.
\<close>

type_synonym tiers = "string \<rightharpoonup> real"
type_synonym buckets = "string \<rightharpoonup> tiers"
type_synonym markets = "string \<rightharpoonup> buckets"
type_synonym fee_table = "string \<rightharpoonup> markets"

record fee_model =
  fee_tiers :: fee_table

text \<open>The default schedule of \<open>FeeModel.__init__\<close> for OKX.\<close>

definition okx_fee_tiers :: markets where
  "okx_fee_tiers =
     [''spot'' \<mapsto>
        [''maker'' \<mapsto>
           [''VIP0'' \<mapsto> 0.0010, ''VIP1'' \<mapsto> 0.0008, ''VIP2'' \<mapsto> 0.0006,
            ''VIP3'' \<mapsto> 0.0004, ''VIP4'' \<mapsto> 0.0002, ''VIP5'' \<mapsto> 0.0000],
         ''taker'' \<mapsto>
           [''VIP0'' \<mapsto> 0.0015, ''VIP1'' \<mapsto> 0.0010, ''VIP2'' \<mapsto> 0.0008,
            ''VIP3'' \<mapsto> 0.0005, ''VIP4'' \<mapsto> 0.0003, ''VIP5'' \<mapsto> 0.0001]],
      ''futures'' \<mapsto>
        [''maker'' \<mapsto>
           [''VIP0'' \<mapsto> 0.0002, ''VIP1'' \<mapsto> 0.0001, ''VIP2'' \<mapsto> 0.0000,
            ''VIP3'' \<mapsto> - 0.0001, ''VIP4'' \<mapsto> - 0.0002, ''VIP5'' \<mapsto> - 0.0003],
         ''taker'' \<mapsto>
           [''VIP0'' \<mapsto> 0.0005, ''VIP1'' \<mapsto> 0.0004, ''VIP2'' \<mapsto> 0.0003,
            ''VIP3'' \<mapsto> 0.0002, ''VIP4'' \<mapsto> 0.0001, ''VIP5'' \<mapsto> 0.0000]]]"

text \<open>\<open>FeeModel.__init__\<close>: the table holds the OKX schedule.\<close>

definition init_fee_model :: fee_model where
  "init_fee_model = \<lparr>fee_tiers = [''OKX'' \<mapsto> okx_fee_tiers]\<rparr>"

text \<open>The subscript \<open>d[k]\<close> of a dictionary raises \<open>KeyError\<close> on an absent key.\<close>

definition get_item :: "('k \<rightharpoonup> 'v) \<Rightarrow> 'k \<Rightarrow> py_error + 'v" where
  "get_item d k = (case d k of None \<Rightarrow> Inl KeyError | Some v \<Rightarrow> Inr v)"

text \<open>
  \<open>FeeModel.get_fee_rate\<close>: each \<open>not in\<close> test replaces the key by its default, and the
  subscript that follows looks the (possibly replaced) key up.
\<close>

definition get_fee_rate :: "fee_model \<Rightarrow> string \<Rightarrow> string \<Rightarrow> string \<Rightarrow> bool \<Rightarrow> py_error + real" where
  "get_fee_rate fm exchange market_type fee_tier is_maker =
     (let exchange = (if fee_tiers fm exchange = None then ''OKX'' else exchange) in
      case get_item (fee_tiers fm) exchange of
        Inl e \<Rightarrow> Inl e
      | Inr ms \<Rightarrow>
          let market_type = (if ms market_type = None then ''spot'' else market_type);
              order_type = (if is_maker then ''maker'' else ''taker'')
          in case get_item ms market_type of
               Inl e \<Rightarrow> Inl e
             | Inr bs \<Rightarrow>
                 (case get_item bs order_type of
                    Inl e \<Rightarrow> Inl e
                  | Inr ts \<Rightarrow>
                      let fee_tier = (if ts fee_tier = None then ''VIP0'' else fee_tier)
                      in get_item ts fee_tier))"

text \<open>
  The dictionary returned by \<open>FeeModel.calculate_fee\<close>. The order value and the rates are
  Python floats; the maker proportion is a computed float.
\<close>

record fee =
  maker_fee :: float64
  taker_fee :: float64
  total_fee :: float64
  effective_rate :: float64

definition calculate_fee ::
  "fee_model \<Rightarrow> real \<Rightarrow> string \<Rightarrow> string \<Rightarrow> string \<Rightarrow> float64 \<Rightarrow> py_error + fee" where
  "calculate_fee fm order_value exchange market_type fee_tier maker_proportion =
     (case get_fee_rate fm exchange market_type fee_tier True of
        Inl e \<Rightarrow> Inl e
      | Inr maker_rate \<Rightarrow>
          (case get_fee_rate fm exchange market_type fee_tier False of
             Inl e \<Rightarrow> Inl e
           | Inr taker_rate \<Rightarrow>
               let maker_value = f_mul (Finite order_value) maker_proportion;
                   taker_value = f_mul (Finite order_value) (f_sub (Finite 1) maker_proportion);
                   maker_fee = f_mul maker_value (Finite maker_rate);
                   taker_fee = f_mul taker_value (Finite taker_rate);
                   total_fee = f_add maker_fee taker_fee
               in Inr \<lparr>maker_fee = maker_fee, taker_fee = taker_fee, total_fee = total_fee,
                        effective_rate =
                          (if order_value > 0 then f_div total_fee (Finite order_value)
                           else Finite 0)\<rparr>))"

text \<open>\<open>FeeModel.add_exchange_fee_tiers\<close> replaces the whole entry of the exchange.\<close>

definition add_exchange_fee_tiers :: "fee_model \<Rightarrow> string \<Rightarrow> markets \<Rightarrow> fee_model" where
  "add_exchange_fee_tiers fm exchange tiers = fm\<lparr>fee_tiers := (fee_tiers fm)(exchange \<mapsto> tiers)\<rparr>"

text \<open>
  A fee table in which every default that \<open>get_fee_rate\<close> falls back to exists: the
  exchange \<open>OKX\<close>, the market type \<open>spot\<close> under every exchange, and under every market
  type both order types, each with the tier \<open>VIP0\<close>.
\<close>

definition complete_markets :: "markets \<Rightarrow> bool" where
  "complete_markets ms \<longleftrightarrow>
     ''spot'' \<in> dom ms \<and>
     (\<forall>bs \<in> ran ms. \<forall>ot \<in> {''maker'', ''taker''}. \<exists>ts. bs ot = Some ts \<and> ''VIP0'' \<in> dom ts)"

definition complete_fee_table :: "fee_table \<Rightarrow> bool" where
  "complete_fee_table ft \<longleftrightarrow>
     ''OKX'' \<in> dom ft \<and> (\<forall>ms \<in> ran ft. complete_markets ms)"

text \<open>Two schedules for an added exchange: one without \<open>spot\<close>, one complete.\<close>

definition futures_only :: markets where
  "futures_only =
     [''futures'' \<mapsto>
        [''maker'' \<mapsto> [''VIP0'' \<mapsto> 0.0002], ''taker'' \<mapsto> [''VIP0'' \<mapsto> 0.0004]]]"

definition spot_only :: markets where
  "spot_only =
     [''spot'' \<mapsto>
        [''maker'' \<mapsto> [''VIP0'' \<mapsto> 0.001], ''taker'' \<mapsto> [''VIP0'' \<mapsto> 0.002]]]"

section \<open>The estimators (src/models/slippage_model.py, maker_taker.py, market_impact.py)\<close>

text \<open>
  The part of scikit-learn the estimators use is a parameter: fitting the
  \<open>StandardScaler\<close> gives its transformation of a row, fitting a regressor on the scaled
  rows gives its prediction on a scaled row; both may raise.
\<close>

datatype regressor = LinearRegression | QuantileRegressor real real

record sklearn =
  scaler_fit :: "real list list \<Rightarrow> py_error + (real list \<Rightarrow> real list)"
  regressor_fit :: "regressor \<Rightarrow> real list list \<Rightarrow> real list \<Rightarrow> py_error + (real list \<Rightarrow> real)"

text \<open>
  \<open>SlippageModel\<close>. \<open>predict_row\<close> stands for the fitted scaler and regressor: the
  prediction on one row of features. It is read only when \<open>is_fitted\<close> is set.
\<close>

record slippage_model =
  regression_type :: string
  quantile :: real
  is_fitted :: bool
  predict_row :: "real list \<Rightarrow> real"

text \<open>\<open>SlippageModel.__init__\<close> stores its arguments; it has no statement that raises.\<close>

definition slippage_model_init :: "string \<Rightarrow> real \<Rightarrow> py_error + slippage_model" where
  "slippage_model_init rt q =
     Inr \<lparr>regression_type = rt, quantile = q, is_fitted = False,
          predict_row = (\<lambda>row. 0)\<rparr>"

text \<open>
  \<open>SlippageModel.fit\<close>. \<open>X.shape[0]\<close> is the number of rows. After a raise the object is
  as before, but for its scaler, which is not read while \<open>is_fitted\<close> is unset.
\<close>

definition fit :: "sklearn \<Rightarrow> slippage_model \<Rightarrow> real list list \<Rightarrow> real list \<Rightarrow> py_error + slippage_model" where
  "fit sk m X y =
     (if length X < 10 then Inr m
      else case scaler_fit sk X of
             Inl e \<Rightarrow> Inl e
           | Inr transform \<Rightarrow>
               let X_scaled = map transform X;
                   train = (\<lambda>r. case regressor_fit sk r X_scaled y of
                                   Inl e \<Rightarrow> Inl e
                                 | Inr predict \<Rightarrow>
                                     Inr (m\<lparr>is_fitted := True,
                                            predict_row := (\<lambda>row. predict (transform row))\<rparr>))
               in if regression_type m = ''linear'' then train LinearRegression
                  else if regression_type m = ''quantile''
                       then train (QuantileRegressor (quantile m) 0.5)
                  else Inl ValueError)"

text \<open>The imbalance is the float that \<open>get_orderbook_imbalance\<close> returned.\<close>

definition estimate_slippage_fallback :: "real \<Rightarrow> real \<Rightarrow> real \<Rightarrow> float64 \<Rightarrow> num" where
  "estimate_slippage_fallback order_size spread volatility orderbook_imbalance =
     (let base_slippage = Finite (spread * 0.5);
          size_factor = f_mul (f_log1p (Finite order_size)) (Finite 0.1);
          vol_factor = Finite (volatility * 2.0);
          imbalance_factor = f_mul (f_mul (f_neg orderbook_imbalance) (Finite spread)) (Finite 0.3)
      in NpFloat64 (f_add (f_add (f_add base_slippage size_factor) vol_factor) imbalance_factor))"

text \<open>
  \<open>SlippageModel.estimate_slippage\<close>: the fallback is a \<open>numpy.float64\<close> (through
  \<open>np.log1p\<close>), the fitted prediction is converted by \<open>float(...)\<close>. scikit-learn
  rejects a row that holds a NaN or an infinity with \<open>ValueError\<close>.
\<close>

definition estimate_slippage ::
  "slippage_model \<Rightarrow> real \<Rightarrow> real \<Rightarrow> real \<Rightarrow> float64 \<Rightarrow> py_error + num" where
  "estimate_slippage m order_size spread volatility orderbook_imbalance =
     (if \<not> is_fitted m
      then Inr (estimate_slippage_fallback order_size spread volatility orderbook_imbalance)
      else case orderbook_imbalance of
             Finite i \<Rightarrow> Inr (PyFloat (Finite (predict_row m [order_size, spread, volatility, i])))
           | _ \<Rightarrow> Inl ValueError)"

text \<open>\<open>MakerTakerModel\<close>, with \<open>predict_proba_row\<close> for the fitted scaler and classifier.\<close>

record maker_taker_model =
  mt_is_fitted :: bool
  predict_proba_row :: "real list \<Rightarrow> real"

definition maker_taker_model_init :: maker_taker_model where
  "maker_taker_model_init = \<lparr>mt_is_fitted = False, predict_proba_row = (\<lambda>row. 0.5)\<rparr>"

definition estimate_maker_proportion_fallback :: "real \<Rightarrow> real \<Rightarrow> real \<Rightarrow> float64 \<Rightarrow> float64" where
  "estimate_maker_proportion_fallback order_size spread volatility orderbook_imbalance =
     (let base_proportion = Finite 0.5;
          size_factor = f_div (f_mul (Finite (- 0.1)) (f_log1p (Finite order_size))) (Finite 10.0);
          spread_factor = f_mul (Finite 0.1) (f_tanh (Finite spread));
          vol_factor = Finite (- 0.2 * volatility);
          imbalance_factor = f_mul (Finite 0.1) orderbook_imbalance;
          maker_proportion =
            f_add (f_add (f_add (f_add base_proportion size_factor) spread_factor) vol_factor)
              imbalance_factor
      in py_max (Finite 0.0) (py_min (Finite 1.0) maker_proportion))"

definition estimate_maker_proportion ::
  "maker_taker_model \<Rightarrow> real \<Rightarrow> real \<Rightarrow> real \<Rightarrow> float64 \<Rightarrow> py_error + float64" where
  "estimate_maker_proportion m order_size spread volatility orderbook_imbalance =
     (if \<not> mt_is_fitted m
      then Inr (estimate_maker_proportion_fallback order_size spread volatility orderbook_imbalance)
      else case orderbook_imbalance of
             Finite i \<Rightarrow> Inr (Finite (predict_proba_row m [order_size, spread, volatility, i]))
           | _ \<Rightarrow> Inl ValueError)"

text \<open>
  \<open>AlmgrenChrissModel\<close> and the defaults of its constructor, the doubles of the literals
  \<open>0.1\<close>, \<open>0.01\<close>, \<open>0.5\<close> and \<open>0.001\<close>.
\<close>

record almgren_chriss_model =
  temporary_impact_factor :: real
  permanent_impact_factor :: real
  market_vol_factor :: real
  risk_aversion :: real

definition almgren_chriss_default :: almgren_chriss_model where
  "almgren_chriss_default =
     \<lparr>temporary_impact_factor = rd 0.1, permanent_impact_factor = rd 0.01,
      market_vol_factor = rd 0.5, risk_aversion = rd 0.001\<rparr>"

record market_impact =
  temporary_impact :: num
  permanent_impact :: num
  execution_risk :: num
  total_impact :: num

text \<open>
  \<open>AlmgrenChrissModel.calculate_market_impact\<close> on Python floats. \<open>np.sqrt\<close> and
  \<open>np.tanh\<close> turn what they touch into \<open>numpy.float64\<close>; the two guarded quotients have a
  positive divisor, the quotient by \<open>execution_time\<close> is not guarded, and the two squares
  of the execution risk raise \<open>OverflowError\<close> when they are out of range.
\<close>

definition calculate_market_impact ::
  "almgren_chriss_model \<Rightarrow> real \<Rightarrow> real \<Rightarrow> real \<Rightarrow> real \<Rightarrow> real \<Rightarrow> real \<Rightarrow> py_error + market_impact" where
  "calculate_market_impact am order_size avg_daily_volume volatility mid_price orderbook_depth
       execution_time =
     (let normalized_size = (if avg_daily_volume > 0 then order_size / avg_daily_volume else 0)
      in if execution_time = 0 then Inl ZeroDivisionError
         else if pow_overflows volatility \<or> pow_overflows order_size then Inl OverflowError
         else
           let trading_rate = order_size / execution_time;
               size_scaling = (if normalized_size > 0 then NpFloat64 (f_sqrt (Finite normalized_size))
                               else PyFloat (Finite 1.0));
               temporary_impact =
                 num_mul
                   (num_mul (PyFloat (Finite (temporary_impact_factor am * mid_price * trading_rate)))
                      size_scaling)
                   (PyFloat (Finite (1 + market_vol_factor am * volatility)));
               permanent_impact = PyFloat (Finite (permanent_impact_factor am * mid_price * order_size));
               execution_risk =
                 PyFloat (Finite (0.5 * risk_aversion am * volatility\<^sup>2 * execution_time * order_size\<^sup>2));
               depth_adjustment =
                 (if orderbook_depth > 0
                  then num_add (PyFloat (Finite 1.0))
                         (NpFloat64 (f_tanh (Finite (order_size / orderbook_depth))))
                  else PyFloat (Finite 1.0));
               temporary_impact = num_mul temporary_impact depth_adjustment;
               total_impact = num_add (num_add temporary_impact permanent_impact) execution_risk
           in Inr \<lparr>temporary_impact = temporary_impact, permanent_impact = permanent_impact,
                    execution_risk = execution_risk, total_impact = total_impact\<rparr>)"

section \<open>The trade simulator (src/models/simulator.py)\<close>

text \<open>The objects a \<open>TradeSimulator\<close> holds.\<close>

record trade_simulator =
  sim_orderbook :: orderbook
  sim_slippage_model :: slippage_model
  sim_market_impact_model :: almgren_chriss_model
  sim_maker_taker_model :: maker_taker_model
  sim_fee_model :: fee_model

text \<open>
  The dictionary of a completed simulation (its keys carry the prefix \<open>ce_\<close>; the
  wall-clock \<open>processing_time\<close> is left out), and the two results of
  \<open>simulate_market_order\<close>: the dictionary with the single key \<open>error\<close>, or the estimate.
\<close>

record cost_estimate =
  ce_timestamp :: "string option"
  ce_exchange :: string
  ce_symbol :: "string option"
  ce_side :: string
  ce_quantity :: real
  ce_mid_price :: real
  ce_execution_price :: float64
  ce_order_value :: real
  ce_maker_proportion :: float64
  ce_fees :: fee
  ce_slippage :: float64
  ce_slippage_percentage :: float64
  ce_market_impact :: market_impact
  ce_market_impact_percentage :: float64
  ce_net_cost :: float64
  ce_net_cost_percentage :: float64

datatype sim_result = ErrorResult string | CostEstimate cost_estimate

definition percentage :: "float64 \<Rightarrow> real \<Rightarrow> float64" where
  "percentage x order_value =
     (if order_value > 0 then f_mul (f_div x (Finite order_value)) (Finite 100) else Finite 0)"

text \<open>
  \<open>TradeSimulator.simulate_market_order\<close>. The quotient by \<open>quantity\<close> in the execution
  price is the one division of the function that has no guard.
\<close>

definition simulate_market_order ::
  "trade_simulator \<Rightarrow> string \<Rightarrow> real \<Rightarrow> string \<Rightarrow> string \<Rightarrow> string \<Rightarrow> real \<Rightarrow> py_error + sim_result" where
  "simulate_market_order sim side quantity exch market_type fee_tier volatility =
     (let ob = sim_orderbook sim in
      if asks ob = [] \<or> bids ob = [] then Inr (ErrorResult ''Orderbook is empty'')
      else
        case (get_mid_price ob, get_spread ob, get_orderbook_imbalance ob) of
          (Some mid_price, Some spread, Some orderbook_imbalance) \<Rightarrow>
            let order_value = quantity * mid_price
            in (case estimate_maker_proportion (sim_maker_taker_model sim) quantity spread
                       volatility orderbook_imbalance of
                  Inl e \<Rightarrow> Inl e
                | Inr maker_proportion \<Rightarrow>
               (case calculate_fee (sim_fee_model sim) order_value exch market_type fee_tier
                       maker_proportion of
                  Inl e \<Rightarrow> Inl e
                | Inr fees \<Rightarrow>
               (case estimate_slippage (sim_slippage_model sim) quantity spread volatility
                       orderbook_imbalance of
                  Inl e \<Rightarrow> Inl e
                | Inr slippage \<Rightarrow>
                    let orderbook_depth = sum_list (map snd (bids ob)) + sum_list (map snd (asks ob));
                        avg_daily_volume = orderbook_depth * 100
                    in (case calculate_market_impact (sim_market_impact_model sim) quantity
                               avg_daily_volume volatility mid_price orderbook_depth 1.0 of
                          Inl e \<Rightarrow> Inl e
                        | Inr mi \<Rightarrow>
                            let net_cost =
                                  f_add (f_add (total_fee fees) (val slippage)) (val (total_impact mi));
                                net_cost_percentage = percentage net_cost order_value
                            in (case truediv (num_add slippage (temporary_impact mi))
                                       (PyFloat (Finite quantity)) of
                                  Inl e \<Rightarrow> Inl e
                                | Inr q \<Rightarrow>
                                    let execution_price =
                                          (if lower side = ''buy'' then f_add (Finite mid_price) (val q)
                                           else f_sub (Finite mid_price) (val q))
                                    in Inr (CostEstimate
                                         \<lparr>ce_timestamp = ob_timestamp ob,
                                          ce_exchange = exch,
                                          ce_symbol = ob_symbol ob,
                                          ce_side = side,
                                          ce_quantity = quantity,
                                          ce_mid_price = mid_price,
                                          ce_execution_price = execution_price,
                                          ce_order_value = order_value,
                                          ce_maker_proportion = maker_proportion,
                                          ce_fees = fees,
                                          ce_slippage = val slippage,
                                          ce_slippage_percentage = percentage (val slippage) order_value,
                                          ce_market_impact = mi,
                                          ce_market_impact_percentage =
                                            percentage (val (total_impact mi)) order_value,
                                          ce_net_cost = net_cost,
                                          ce_net_cost_percentage = net_cost_percentage\<rparr>))))))
        | _ \<Rightarrow> Inr (ErrorResult ''Invalid orderbook metrics''))"

text \<open>\<open>TradeSimulator.__init__\<close>, and the simulator of the test suite after its update.\<close>

definition trade_simulator_init :: trade_simulator where
  "trade_simulator_init =
     \<lparr>sim_orderbook = init_orderbook 50,
      sim_slippage_model =
        \<lparr>regression_type = ''linear'', quantile = 0.5, is_fitted = False, predict_row = (\<lambda>row. 0)\<rparr>,
      sim_market_impact_model = almgren_chriss_default,
      sim_maker_taker_model = maker_taker_model_init,
      sim_fee_model = init_fee_model\<rparr>"

definition sample_simulator :: trade_simulator where
  "sample_simulator = trade_simulator_init\<lparr>sim_orderbook := sample_book\<rparr>"

text \<open>
  A simulator whose slippage model has been fitted (its prediction is the constant
  \<open>1/2\<close>) and whose book holds one level a side, both of quantity 0.
\<close>

definition fitted_simulator :: trade_simulator where
  "fitted_simulator =
     trade_simulator_init
       \<lparr>sim_orderbook := (init_orderbook 50)\<lparr>asks := [(100, 0)], bids := [(99, 0)]\<rparr>,
        sim_slippage_model :=
          \<lparr>regression_type = ''linear'', quantile = 0.5, is_fitted = True,
           predict_row = (\<lambda>row. 1 / 2)\<rparr>\<rparr>"

text \<open>A scikit-learn whose scaler is the identity and whose regressors are constant.\<close>

definition sklearn_stub :: sklearn where
  "sklearn_stub =
     \<lparr>scaler_fit = (\<lambda>X. Inr (\<lambda>row. row)), regressor_fit = (\<lambda>r X y. Inr (\<lambda>row. 1 / 2))\<rparr>"

section \<open>The execution schedule (src/models/market_impact.py)\<close>

text \<open>
  The schedule is computed in double arithmetic throughout; its three arguments are
  Python floats. \<open>int(x)\<close> truncates towards zero, and raises \<open>OverflowError\<close> on an
  infinity and \<open>ValueError\<close> on a NaN.
\<close>

definition int_of_float :: "real \<Rightarrow> int" where
  "int_of_float x = (if 0 \<le> x then \<lfloor>x\<rfloor> else \<lceil>x\<rceil>)"

fun py_int :: "float64 \<Rightarrow> py_error + int" where
  "py_int (Finite x) = Inr (int_of_float x)"
| "py_int NaN = Inl ValueError"
| "py_int a = Inl OverflowError"

text \<open>\<open>max(int(time_horizon * 4), 2)\<close>\<close>

definition n_intervals :: "float64 \<Rightarrow> py_error + nat" where
  "n_intervals time_horizon =
     (case py_int (d_mul time_horizon (Finite 4)) of
        Inl e \<Rightarrow> Inl e
      | Inr m \<Rightarrow> Inr (nat (max m 2)))"

text \<open>
  \<open>np.linspace(0, stop, num)\<close> for \<open>num \<ge> 2\<close>: the multiples of the step
  \<open>stop / (num - 1)\<close>, or, when the step is 0, of \<open>stop\<close> by \<open>i / (num - 1)\<close>; the last point
  is then set to \<open>stop\<close>. (numpy has no array for a number of points beyond the memory
  of the machine; this limit is not modelled.)
\<close>

definition linspace :: "float64 \<Rightarrow> nat \<Rightarrow> float64 list" where
  "linspace stop num =
     (let divisor = Finite (real (num - 1));
          step = d_div stop divisor;
          y = (if step = Finite 0
               then map (\<lambda>i. d_mul (d_div (Finite (real i)) divisor) stop) [0..<num]
               else map (\<lambda>i. d_mul (Finite (real i)) step) [0..<num])
      in butlast y @ [stop])"

text \<open>
  \<open>np.sum\<close> of an array, each addition rounded. numpy adds a short array from left to
  right and a longer one in another order; no result below depends on the order.
\<close>

definition np_sum :: "float64 list \<Rightarrow> float64" where
  "np_sum xs = foldl d_add (Finite 0) xs"

text \<open>\<open>alpha = risk_aversion * volatility**2\<close>; the square may raise.\<close>

definition alpha_of :: "almgren_chriss_model \<Rightarrow> float64 \<Rightarrow> py_error + float64" where
  "alpha_of am volatility =
     (case py_pow2 volatility of
        Inl e \<Rightarrow> Inl e
      | Inr v2 \<Rightarrow> Inr (d_mul (Finite (risk_aversion am)) v2))"

text \<open>
  The branch \<open>alpha == 0\<close>: \<open>trade_sizes\<close> starts as zeros and all entries but the last
  are set to \<open>trade_per_step\<close>. (The remaining inventory computed in this branch is not
  used afterwards.)
\<close>

definition trade_sizes_neutral :: "float64 \<Rightarrow> nat \<Rightarrow> float64 list" where
  "trade_sizes_neutral total_size n =
     (let trade_per_step = d_div total_size (Finite (real (n - 1)))
      in replicate (n - 1) trade_per_step @ [Finite 0])"

text \<open>
  The other branch. \<open>np.sqrt(alpha * gamma)\<close>, the quotient \<open>remaining_factor\<close> of the two
  hyperbolic sines at a time \<open>t\<close>, the remaining inventory at the time points, and its
  decrements.
\<close>

definition kappa :: "almgren_chriss_model \<Rightarrow> float64 \<Rightarrow> float64" where
  "kappa am alpha = d_sqrt (d_mul alpha (Finite (temporary_impact_factor am)))"

definition sinh_term :: "almgren_chriss_model \<Rightarrow> float64 \<Rightarrow> float64 \<Rightarrow> float64" where
  "sinh_term am alpha time_horizon = d_sinh (d_mul (kappa am alpha) time_horizon)"

definition remaining_factor ::
  "almgren_chriss_model \<Rightarrow> float64 \<Rightarrow> float64 \<Rightarrow> float64 \<Rightarrow> float64" where
  "remaining_factor am alpha time_horizon t =
     d_div (d_sinh (d_mul (kappa am alpha) (d_sub time_horizon t)))
       (sinh_term am alpha time_horizon)"

definition remaining_sizes ::
  "almgren_chriss_model \<Rightarrow> float64 \<Rightarrow> float64 \<Rightarrow> float64 \<Rightarrow> float64 list \<Rightarrow> float64 list" where
  "remaining_sizes am total_size time_horizon alpha time_points =
     total_size #
     map (\<lambda>i. let t = time_points ! i
               in d_mul total_size (remaining_factor am alpha time_horizon t))
       [1..<length time_points]"

definition trade_sizes_averse :: "float64 list \<Rightarrow> float64 list" where
  "trade_sizes_averse remaining =
     map (\<lambda>i. d_sub (remaining ! i) (remaining ! (i + 1))) [0..<length remaining - 1]
     @ [last remaining]"

text \<open>The final step: a sum that is off by more than \<open>1e-10\<close> is made up in the last entry.\<close>

definition correction_due :: "float64 \<Rightarrow> float64 list \<Rightarrow> bool" where
  "correction_due total_size trade_sizes \<longleftrightarrow>
     f_less (Finite (rd (1 / 10 ^ 10))) (f_abs (d_sub (np_sum trade_sizes) total_size))"

definition adjust_final :: "float64 \<Rightarrow> float64 list \<Rightarrow> float64 list" where
  "adjust_final total_size trade_sizes =
     (if correction_due total_size trade_sizes
      then butlast trade_sizes @
           [d_add (last trade_sizes) (d_sub total_size (np_sum trade_sizes))]
      else trade_sizes)"

text \<open>\<open>AlmgrenChrissModel.calculate_optimal_execution_schedule\<close>: the times and the sizes.\<close>

definition calculate_optimal_execution_schedule ::
  "almgren_chriss_model \<Rightarrow> float64 \<Rightarrow> float64 \<Rightarrow> float64 \<Rightarrow>
     py_error + float64 list \<times> float64 list" where
  "calculate_optimal_execution_schedule am total_size time_horizon volatility =
     (case n_intervals time_horizon of
        Inl e \<Rightarrow> Inl e
      | Inr n \<Rightarrow>
          let time_points = linspace time_horizon n
          in (case alpha_of am volatility of
                Inl e \<Rightarrow> Inl e
              | Inr alpha \<Rightarrow>
                  let trade_sizes =
                        (if alpha = Finite 0 then trade_sizes_neutral total_size n
                         else trade_sizes_averse
                                (remaining_sizes am total_size time_horizon alpha time_points))
                  in Inr (time_points, adjust_final total_size trade_sizes)))"


section \<open>Properties of rounding\<close>

lemma round_even_of_int [simp]: "round_even (of_int n) = n"
  by (simp add: round_even_def)

lemma round_even_bounds: "\<lfloor>r\<rfloor> \<le> round_even r \<and> round_even r \<le> \<lceil>r\<rceil>"
proof (cases "r = of_int \<lfloor>r\<rfloor>")
  case True
  then have "r - of_int \<lfloor>r\<rfloor> < 1 / 2" by simp
  then have "round_even r = \<lfloor>r\<rfloor>" by (simp add: round_even_def Let_def)
  then show ?thesis by (simp add: floor_le_ceiling)
next
  case False
  then have c: "\<lceil>r\<rceil> = \<lfloor>r\<rfloor> + 1" by (simp add: ceiling_altdef)
  have "round_even r = \<lfloor>r\<rfloor> \<or> round_even r = \<lfloor>r\<rfloor> + 1"
    by (simp add: round_even_def Let_def)
  with c show ?thesis by auto
qed

lemma two_powr_int: "(2::real) powr (of_int e) = 2 powi e"
  by (rule powr_real_of_int') simp_all

lemma binade_bounds:
  assumes "x \<noteq> 0"
  shows "2 powi (binade x) \<le> \<bar>x\<bar> \<and> \<bar>x\<bar> < 2 powi (binade x + 1)"
proof -
  have pos: "0 < \<bar>x\<bar>" using assms by simp
  have one: "(1::real) < 2" by simp
  from floor_log_eq_powr_iff [OF pos one, of "binade x"]
  have "2 powr (of_int (binade x)) \<le> \<bar>x\<bar> \<and> \<bar>x\<bar> < 2 powr (of_int (binade x + 1))"
    by (simp add: binade_def)
  then show ?thesis by (simp only: two_powr_int)
qed

lemma binade_eqI:
  assumes "2 powi e \<le> \<bar>x\<bar>" and "\<bar>x\<bar> < 2 powi (e + 1)"
  shows "binade x = e"
proof -
  have "(0::real) < 2 powi e" by simp
  with assms(1) have pos: "0 < \<bar>x\<bar>" by linarith
  have one: "(1::real) < 2" by simp
  have "2 powr (of_int e) \<le> \<bar>x\<bar> \<and> \<bar>x\<bar> < 2 powr (of_int (e + 1))"
    using assms by (simp only: two_powr_int)
  with floor_log_eq_powr_iff [OF pos one, of e] show ?thesis
    by (simp add: binade_def)
qed


lemma two_powi_less_D: "(2::real) powi a < 2 powi b \<Longrightarrow> a < b"
proof (rule ccontr)
  assume l: "(2::real) powi a < 2 powi b" and "\<not> a < b"
  then have "b \<le> a" by simp
  then have "(2::real) powi b \<le> 2 powi a" by (rule power_int_increasing) simp
  with l show False by simp
qed

lemma two_powi_le_D: "(2::real) powi a \<le> 2 powi b \<Longrightarrow> a \<le> b"
proof (rule ccontr)
  assume l: "(2::real) powi a \<le> 2 powi b" and "\<not> a \<le> b"
  then have "b < a" by simp
  then have "(2::real) powi b < 2 powi a" by (rule power_int_strict_increasing) simp
  with l show False by simp
qed

lemma two_powi_quot: "(2::real) powi a / 2 powi b = 2 powi (a - b)"
  by (subst power_int_diff) simp_all

lemma two_powi_prod: "(2::real) powi a * 2 powi b = 2 powi (a + b)"
  by (subst power_int_add) simp_all

lemma rd_0 [simp]: "rd 0 = 0"
  by (simp add: rd_def)

lemma rd_eval:
  assumes "2 powi e \<le> \<bar>x\<bar>" and "\<bar>x\<bar> < 2 powi (e + 1)"
  shows "rd x = of_int (round_even (x / 2 powi (max e (- 1022) - 52))) * 2 powi (max e (- 1022) - 52)"
proof -
  have "(0::real) < 2 powi e" by simp
  with assms(1) have "0 < \<bar>x\<bar>" by linarith
  then have "x \<noteq> 0" by simp
  then show ?thesis
    by (simp add: rd_def quantum_def binade_eqI [OF assms])
qed

lemma rd_exact:
  assumes x: "x = of_int m * 2 powi j" and m: "\<bar>m\<bar> < 2 ^ 53" and j: "- 1074 \<le> j"
  shows "rd x = x"
proof (cases "x = 0")
  case True
  then show ?thesis by simp
next
  case False
  define u where "u = max (binade x) (- 1022) - 52"
  from binade_bounds [OF False] have lo: "2 powi (binade x) \<le> \<bar>x\<bar>" by simp
  have "\<bar>x\<bar> = of_int \<bar>m\<bar> * 2 powi j" by (simp add: x abs_mult)
  also have "\<dots> < 2 ^ 53 * 2 powi j"
  proof -
    have "(of_int \<bar>m\<bar> :: real) < of_int (2 ^ 53)" using m by (simp only: of_int_less_iff)
    then have "(of_int \<bar>m\<bar> :: real) < 2 ^ 53" by simp
    moreover have "(0::real) < 2 powi j" by simp
    ultimately show ?thesis by (simp only: mult_strict_right_mono)
  qed
  also have "\<dots> = 2 powi (53 + j)" by (simp add: power_int_add)
  finally have "(2::real) powi (binade x) < 2 powi (53 + j)" using lo by simp
  then have "binade x < 53 + j" by (rule two_powi_less_D)
  with j have uj: "u \<le> j" by (simp add: u_def)
  define d where "d = nat (j - u)"
  have jd: "j = u + int d" using uj by (simp add: d_def)
  have q: "x / 2 powi u = of_int (m * 2 ^ d)"
    by (simp add: x jd power_int_add)
  have "rd x = of_int (round_even (x / 2 powi u)) * 2 powi u"
    using False by (simp add: rd_def quantum_def u_def)
  also have "\<dots> = of_int (m * 2 ^ d) * 2 powi u" by (simp only: q round_even_of_int)
  also have "\<dots> = x" by (simp add: x jd power_int_add)
  finally show ?thesis .
qed


lemma rd_ge_pow2:
  assumes lo: "2 powi j \<le> x" and j: "- 1022 \<le> j"
  shows "2 powi j \<le> rd x"
proof -
  have p: "(0::real) < 2 powi j" by simp
  with lo have x0: "0 < x" by linarith
  then have nz: "x \<noteq> 0" and ax: "\<bar>x\<bar> = x" by simp_all
  define b where "b = binade x"
  from binade_bounds [OF nz] have bb: "2 powi b \<le> x" "x < 2 powi (b + 1)"
    by (simp_all add: ax b_def)
  from lo bb(2) have "(2::real) powi j < 2 powi (b + 1)" by linarith
  then have "j < b + 1" by (rule two_powi_less_D)
  then have jb: "j \<le> b" by simp
  with j have u: "max b (- 1022) - 52 = b - 52" by simp
  have q: "(0::real) < 2 powi (b - 52)" by simp
  have "(2::real) ^ 52 = 2 powi b / 2 powi (b - 52)"
    by (simp add: two_powi_quot)
  also have "\<dots> \<le> x / 2 powi (b - 52)"
    using bb(1) q by (simp only: divide_right_mono less_imp_le)
  finally have "(of_int (2 ^ 52) :: real) \<le> x / 2 powi (b - 52)" by simp
  then have "2 ^ 52 \<le> \<lfloor>x / 2 powi (b - 52)\<rfloor>" by (simp only: le_floor_iff)
  with round_even_bounds [of "x / 2 powi (b - 52)"]
  have "2 ^ 52 \<le> round_even (x / 2 powi (b - 52))" by linarith
  then have "(of_int (2 ^ 52) :: real) \<le> of_int (round_even (x / 2 powi (b - 52)))"
    by (simp only: of_int_le_iff)
  then have "(2::real) ^ 52 * 2 powi (b - 52) \<le>
      of_int (round_even (x / 2 powi (b - 52))) * 2 powi (b - 52)"
    using q by (simp only: mult_right_mono less_imp_le of_int_power of_int_numeral)
  moreover have "(2::real) ^ 52 * 2 powi (b - 52) = 2 powi b"
    using two_powi_prod [of 52 "b - 52"] by (simp add: add.commute)
  moreover have "rd x = of_int (round_even (x / 2 powi (b - 52))) * 2 powi (b - 52)"
    using nz by (simp add: rd_def quantum_def b_def [symmetric] u)
  moreover have "(2::real) powi j \<le> 2 powi b" using jb by (rule power_int_increasing) simp
  ultimately show ?thesis by linarith
qed

lemma rd_le_pow2:
  assumes lo: "2 powi j \<le> x" and j: "- 1022 \<le> j" and hi: "x \<le> 2 powi l"
  shows "rd x \<le> 2 powi l"
proof -
  have p: "(0::real) < 2 powi j" by simp
  with lo have x0: "0 < x" by linarith
  then have nz: "x \<noteq> 0" and ax: "\<bar>x\<bar> = x" by simp_all
  define b where "b = binade x"
  from binade_bounds [OF nz] have bb: "2 powi b \<le> x" "x < 2 powi (b + 1)"
    by (simp_all add: ax b_def)
  from lo bb(2) have "(2::real) powi j < 2 powi (b + 1)" by linarith
  then have "j < b + 1" by (rule two_powi_less_D)
  with j have b22: "- 1022 \<le> b" by simp
  from bb(1) hi have "(2::real) powi b \<le> 2 powi l" by linarith
  then have bl: "b \<le> l" by (rule two_powi_le_D)
  show ?thesis
  proof (cases "b = l")
    case True
    with bb(1) hi have "x = 2 powi l" by simp
    moreover have "rd x = x"
      by (rule rd_exact [of x 1 l]) (use \<open>x = 2 powi l\<close> True b22 in simp_all)
    ultimately show ?thesis by simp
  next
    case False
    with bl have "b + 1 \<le> l" by simp
    then have up: "(2::real) powi (b + 1) \<le> 2 powi l" by (rule power_int_increasing) simp
    from b22 have u: "max b (- 1022) - 52 = b - 52" by simp
    have q: "(0::real) < 2 powi (b - 52)" by simp
    have "x / 2 powi (b - 52) < 2 powi (b + 1) / 2 powi (b - 52)"
      using bb(2) q by (simp only: divide_strict_right_mono)
    also have "\<dots> = 2 ^ 53" by (simp add: two_powi_quot)
    finally have "x / 2 powi (b - 52) \<le> of_int (2 ^ 53)" by simp
    then have "\<lceil>x / 2 powi (b - 52)\<rceil> \<le> 2 ^ 53" by (simp only: ceiling_le_iff)
    with round_even_bounds [of "x / 2 powi (b - 52)"]
    have "round_even (x / 2 powi (b - 52)) \<le> 2 ^ 53" by linarith
    then have "(of_int (round_even (x / 2 powi (b - 52))) :: real) \<le> of_int (2 ^ 53)"
      by (simp only: of_int_le_iff)
    then have "of_int (round_even (x / 2 powi (b - 52))) * 2 powi (b - 52)
        \<le> (2::real) ^ 53 * 2 powi (b - 52)"
      using q by (simp only: mult_right_mono less_imp_le of_int_power of_int_numeral)
    moreover have "(2::real) ^ 53 * 2 powi (b - 52) = 2 powi (b + 1)"
      using two_powi_prod [of 53 "b - 52"] by (simp add: add.commute)
    moreover have "rd x = of_int (round_even (x / 2 powi (b - 52))) * 2 powi (b - 52)"
      using nz by (simp add: rd_def quantum_def b_def [symmetric] u)
    ultimately show ?thesis using up by linarith
  qed
qed

lemma max_double_ge: "2 powi 1023 \<le> max_double"
  by (simp add: max_double_def)

lemma fl_0 [simp]: "fl 0 = Finite 0"
  by (simp add: fl_def max_double_def)

lemma fl_Finite: "- max_double \<le> rd x \<Longrightarrow> rd x \<le> max_double \<Longrightarrow> fl x = Finite (rd x)"
  by (simp add: fl_def Let_def)

lemma fl_between:
  assumes "2 powi j \<le> x" and "- 1022 \<le> j" and "x \<le> 2 powi l" and "l \<le> 1023"
  shows "\<exists>y. fl x = Finite y \<and> 2 powi j \<le> y \<and> y \<le> 2 powi l"
proof -
  note lo = rd_ge_pow2 [OF assms(1,2)] and hi = rd_le_pow2 [OF assms(1,2,3)]
  have "(2::real) powi l \<le> 2 powi 1023" using assms(4) by (rule power_int_increasing) simp
  with hi max_double_ge have up: "rd x \<le> max_double" by linarith
  have "(0::real) < 2 powi j" by simp
  with lo have "0 < rd x" by linarith
  moreover have "0 < max_double" by (simp add: max_double_def)
  ultimately have "- max_double \<le> rd x" by linarith
  from fl_Finite [OF this up] lo hi show ?thesis by simp
qed

lemma fl_overflow:
  assumes "2 powi 1024 \<le> x"
  shows "fl x = PosInf"
proof -
  have "2 powi 1024 \<le> rd x" by (rule rd_ge_pow2 [OF assms]) simp
  moreover have "max_double < 2 powi 1024" by (simp add: max_double_def)
  ultimately have "max_double < rd x" by linarith
  then show ?thesis by (simp add: fl_def Let_def)
qed

lemma fl_exact:
  assumes "x = of_int m / 2 ^ k" and "\<bar>m\<bar> < 2 ^ 53" and "k \<le> 1074"
  shows "fl x = Finite x"
proof -
  have x: "x = of_int m * 2 powi (- int k)"
    by (simp add: assms(1) power_int_minus divide_inverse)
  have r: "rd x = x" by (rule rd_exact [OF x assms(2)]) (use assms(3) in simp)
  have "\<bar>x\<bar> = of_int \<bar>m\<bar> / 2 ^ k" by (simp add: assms(1))
  also have "\<dots> \<le> of_int \<bar>m\<bar>" by (simp add: divide_le_eq mult_le_cancel_left1)
  also have "\<dots> \<le> of_int (2 ^ 53)" using assms(2) by (simp only: of_int_le_iff less_imp_le)
  also have "\<dots> \<le> max_double" by (simp add: max_double_def)
  finally have "\<bar>x\<bar> \<le> max_double" .
  then show ?thesis using r by (simp add: fl_def Let_def abs_le_iff)
qed

lemma fl_of_int: "\<bar>n\<bar> < 2 ^ 53 \<Longrightarrow> fl (of_int n) = Finite (of_int n)"
  by (rule fl_exact [where m = n and k = 0]) simp_all

lemma rd_nonpos: 
  assumes "x \<le> 0"
  shows "rd x \<le> 0"
proof (cases "x = 0")
  case False
  have q: "0 < quantum x" by (simp add: quantum_def)
  with assms have "x / quantum x \<le> 0" by (simp add: divide_le_0_iff)
  then have "\<lceil>x / quantum x\<rceil> \<le> 0" by (simp add: ceiling_le_iff)
  with round_even_bounds [of "x / quantum x"] have "round_even (x / quantum x) \<le> 0" by linarith
  then have "(of_int (round_even (x / quantum x)) :: real) \<le> 0" by simp
  with q have "of_int (round_even (x / quantum x)) * quantum x \<le> 0"
    by (simp add: mult_le_0_iff)
  with False show ?thesis by (simp add: rd_def)
qed simp

lemma rd_subnormal_le:
  assumes "0 < x" and "x < 2 powi (- 1022)"
  shows "rd x \<le> 2 powi (- 1022)"
proof -
  from assms(1) have nz: "x \<noteq> 0" by simp
  from binade_bounds [OF nz] assms have "(2::real) powi binade x < 2 powi (- 1022)" by simp
  then have "binade x < - 1022" by (rule two_powi_less_D)
  then have q: "quantum x = 2 powi (- 1074)" by (simp add: quantum_def max_def)
  have "x / 2 powi (- 1074) \<le> 2 powi (- 1022) / 2 powi (- 1074)"
    using assms(2) by (intro divide_right_mono) simp_all
  also have "\<dots> = of_int (2 ^ 52)" by (simp add: two_powi_quot)
  finally have "\<lceil>x / 2 powi (- 1074)\<rceil> \<le> 2 ^ 52" by (simp only: ceiling_le_iff)
  with round_even_bounds [of "x / 2 powi (- 1074)"]
  have "round_even (x / 2 powi (- 1074)) \<le> 2 ^ 52" by linarith
  then have "(of_int (round_even (x / 2 powi (- 1074))) :: real) \<le> of_int (2 ^ 52)"
    by (simp only: of_int_le_iff)
  then have "of_int (round_even (x / 2 powi (- 1074))) * 2 powi (- 1074)
      \<le> of_int (2 ^ 52) * (2::real) powi (- 1074)"
    by (intro mult_right_mono) simp_all
  also have "\<dots> = 2 powi (- 1022)" by (simp add: power_int_minus)
  finally show ?thesis using nz by (simp add: rd_def q)
qed

lemma rd_le_max_double:
  assumes "x \<le> 2 powi 1023"
  shows "rd x \<le> max_double"
proof -
  have m: "(0::real) \<le> max_double" "(2::real) powi (- 1022) \<le> max_double"
    using max_double_ge by (simp_all add: max_double_def power_int_minus)
  consider "x \<le> 0" | "0 < x" "x < 2 powi (- 1022)" | "2 powi (- 1022) \<le> x" by linarith
  then show ?thesis
  proof cases
    case 1
    from rd_nonpos [OF this] m show ?thesis by linarith
  next
    case 2
    from rd_subnormal_le [OF this] m show ?thesis by linarith
  next
    case 3
    from rd_le_pow2 [OF 3 _ assms] max_double_ge show ?thesis by simp
  qed
qed

lemma fl_not_PosInf: "x \<le> 2 powi 1023 \<Longrightarrow> fl x \<noteq> PosInf"
  using rd_le_max_double [of x] by (simp add: fl_def Let_def)

lemma pow_overflows_small: "x * x \<le> 2 powi 1023 \<Longrightarrow> \<not> pow_overflows x"
  by (simp add: pow_overflows_def fl_not_PosInf)

text \<open>The double of the literal \<open>1e308\<close>.\<close>

lemma double_1e308: "rd (10 ^ 308) = 5010420900022432 * 2 ^ 971"
proof -
  have "rd (10 ^ 308) = of_int (round_even (10 ^ 308 / 2 powi (max 1023 (- 1022) - 52))) *
      2 powi (max 1023 (- 1022) - 52)"
    by (rule rd_eval) simp_all
  also have "\<dots> = 5010420900022432 * 2 ^ 971"
    by (simp add: round_even_def)
  finally show ?thesis .
qed

lemma fl_not_NaN [simp]: "fl x \<noteq> NaN"
  by (simp add: fl_def Let_def)

lemma rd_between:
  assumes "2 powi j \<le> x" and "x \<le> 2 powi l" and "- 1022 \<le> j"
  shows "2 powi j \<le> rd x \<and> rd x \<le> 2 powi l"
  using rd_ge_pow2 [OF assms(1,3)] rd_le_pow2 [OF assms(1,3,2)] by simp

lemma fl_mul_between:
  assumes x: "2 powi j1 \<le> x" "x \<le> 2 powi l1"
    and y: "2 powi j2 \<le> y" "y \<le> 2 powi l2"
    and r: "- 1022 \<le> j1 + j2" "l1 + l2 \<le> 1023"
  shows "\<exists>z. fl (x * y) = Finite z \<and> 2 powi (j1 + j2) \<le> z \<and> z \<le> 2 powi (l1 + l2)"
proof -
  have px: "(0::real) < 2 powi j1" and py: "(0::real) < 2 powi j2" by simp_all
  with x y have pos: "0 \<le> x" "0 \<le> y" by linarith+
  have "2 powi j1 * 2 powi j2 \<le> x * y"
    using x(1) y(1) px py pos by (intro mult_mono) simp_all
  then have lo: "2 powi (j1 + j2) \<le> x * y" by (simp only: two_powi_prod)
  have "x * y \<le> 2 powi l1 * 2 powi l2"
    using x(2) y(2) pos by (intro mult_mono) simp_all
  then have hi: "x * y \<le> 2 powi (l1 + l2)" by (simp only: two_powi_prod)
  from fl_between [OF lo r(1) hi r(2)] show ?thesis .
qed




lemma fl_small_ints:
  "fl 1 = Finite 1" "fl 2 = Finite 2" "fl 4 = Finite 4" "fl 100 = Finite 100"
  "fl (1 / 2) = Finite (1 / 2)"
  using fl_of_int [of 1] fl_of_int [of 2] fl_of_int [of 4] fl_of_int [of 100]
    fl_exact [where m = 1 and k = 1]
  by simp_all

section \<open>Properties of the order book\<close>








lemma imbalance_empty_side:
  "asks ob = [] \<or> bids ob = [] \<Longrightarrow> get_orderbook_imbalance ob = None"
  by (simp add: get_orderbook_imbalance_def)

text \<open>On the book of the test suite no sum rounds; only the quotient does.\<close>

lemma sample_imbalance:
  "get_orderbook_imbalance sample_book = Some (Finite (- (4725088133634619 / 2 ^ 58)))"
proof -
  have i: "fl 1 = Finite 1" "fl 3 = Finite 3" "fl 6 = Finite 6" "fl 10 = Finite 10"
    "fl 15 = Finite 15"
    using fl_of_int [of 1] fl_of_int [of 3] fl_of_int [of 6] fl_of_int [of 10] fl_of_int [of 15]
    by simp_all
  have h: "fl (3 / 2) = Finite (3 / 2)" "fl (7 / 2) = Finite (7 / 2)"
    "fl (13 / 2) = Finite (13 / 2)" "fl (21 / 2) = Finite (21 / 2)"
    "fl (31 / 2) = Finite (31 / 2)" "fl (61 / 2) = Finite (61 / 2)"
    "fl (- (1 / 2)) = Finite (- (1 / 2))"
    using fl_exact [where m = 3 and k = 1] fl_exact [where m = 7 and k = 1]
      fl_exact [where m = 13 and k = 1] fl_exact [where m = 21 and k = 1]
      fl_exact [where m = 31 and k = 1] fl_exact [where m = 61 and k = 1]
      fl_exact [where m = "- 1" and k = 1]
    by simp_all
  have "rd (- (1 / 61)) = of_int (round_even (- (1 / 61) / 2 powi (max (- 6) (- 1022) - 52))) *
      2 powi (max (- 6) (- 1022) - 52)"
    by (rule rd_eval) (simp_all add: power_int_minus)
  also have "\<dots> = - (4725088133634619 / 2 ^ 58)"
    by (simp add: round_even_def power_int_minus)
  finally have q: "fl (- (1 / 61)) = Finite (- (4725088133634619 / 2 ^ 58))"
    by (simp add: fl_def max_double_def)
  have b: "py_sum (map snd (bids sample_book)) = Finite 15"
    by (simp add: py_sum_def sample_book_def i)
  have a: "py_sum (map snd (asks sample_book)) = Finite (31 / 2)"
    by (simp add: py_sum_def sample_book_def h)
  have n: "asks sample_book \<noteq> []" "bids sample_book \<noteq> []" by (simp_all add: sample_book_def)
  show ?thesis
    unfolding get_orderbook_imbalance_def Let_def a b using n by (simp add: h q)
qed

text \<open>
  C9. \<open>get_orderbook_imbalance\<close> is to return a value in \<open>[-1, 1]\<close> on every book whose
  quantities are not negative. It does not: the volumes are sums of doubles, and with two
  bids of quantity \<open>1e308\<close> the bid volume overflows to an infinity; the difference and the
  sum of the volumes are both infinite, and their quotient is a NaN.
\<close>

theorem imbalance_overflow_nan:
  "asks overflow_book \<noteq> [] \<and> bids overflow_book \<noteq> [] \<and>
   list_all (\<lambda>l. 0 \<le> snd l \<and> snd l \<le> max_double) (asks overflow_book @ bids overflow_book) \<and>
   get_orderbook_imbalance overflow_book = Some NaN"
proof -
  let ?x = "5010420900022432 * 2 ^ 971 :: real"
  have x: "?x = of_int 5010420900022432 * 2 powi 971" by simp
  have "rd ?x = ?x" by (rule rd_exact [OF x]) simp_all
  moreover have "?x \<le> max_double" "- max_double \<le> ?x" by (simp_all add: max_double_def)
  ultimately have f1: "fl ?x = Finite ?x" by (simp add: fl_def Let_def)
  have f2: "fl (?x + ?x) = PosInf" by (rule fl_overflow) simp
  have f3: "fl 1 = Finite 1" using fl_of_int [of 1] by simp
  have b: "py_sum (map snd (bids overflow_book)) = PosInf"
    by (simp only: py_sum_def overflow_book_def init_orderbook_def double_1e308
        orderbook.simps list.map snd_conv foldl.simps d_add.simps add_0 f1 f2)
  have a: "py_sum (map snd (asks overflow_book)) = Finite 1"
    by (simp add: py_sum_def overflow_book_def init_orderbook_def f3)
  have n: "asks overflow_book \<noteq> []" "bids overflow_book \<noteq> []"
    by (simp_all add: overflow_book_def)
  have v: "get_orderbook_imbalance overflow_book = Some NaN"
    unfolding get_orderbook_imbalance_def Let_def a b using n by (simp add: f_sub_def)
  have q: "list_all (\<lambda>l. 0 \<le> snd l \<and> snd l \<le> max_double)
      (asks overflow_book @ bids overflow_book)"
    unfolding overflow_book_def init_orderbook_def double_1e308 by (simp add: max_double_def)
  from n v q show ?thesis by simp
qed



lemma on_grid_0 [simp]: "on_grid k 0"
  by (simp add: on_grid_def)

























section \<open>Properties of the fee model\<close>

lemma complete_okx: "complete_markets okx_fee_tiers"
  by (auto simp: complete_markets_def okx_fee_tiers_def ran_def split: if_splits)

lemma complete_init: "complete_fee_table (fee_tiers init_fee_model)"
  using complete_okx by (auto simp: complete_fee_table_def init_fee_model_def ran_def split: if_splits)

lemma complete_add:
  "complete_fee_table (fee_tiers fm) \<Longrightarrow> complete_markets tiers \<Longrightarrow>
   complete_fee_table (fee_tiers (add_exchange_fee_tiers fm exchange tiers))"
  by (auto simp: complete_fee_table_def add_exchange_fee_tiers_def ran_def split: if_splits)

lemma get_fee_rate_total:
  assumes "complete_fee_table (fee_tiers fm)"
  shows "\<exists>r. get_fee_rate fm exchange market_type fee_tier is_maker = Inr r"
proof -
  define ex where "ex = (if fee_tiers fm exchange = None then ''OKX'' else exchange)"
  from assms obtain ms where ms: "fee_tiers fm ex = Some ms" "complete_markets ms"
    by (cases "fee_tiers fm exchange") (auto simp: complete_fee_table_def ex_def ran_def)
  define mt where "mt = (if ms market_type = None then ''spot'' else market_type)"
  define ot where "ot = (if is_maker then ''maker'' else ''taker'')"
  from ms(2) obtain bs where bs: "ms mt = Some bs"
    by (cases "ms market_type") (auto simp: complete_markets_def mt_def)
  then have "bs \<in> ran ms" by (auto simp: ran_def)
  moreover have "ot \<in> {''maker'', ''taker''}" by (simp add: ot_def)
  ultimately obtain ts where ts: "bs ot = Some ts" "''VIP0'' \<in> dom ts"
    using ms(2) unfolding complete_markets_def by blast
  define ft where "ft = (if ts fee_tier = None then ''VIP0'' else fee_tier)"
  from ts(2) obtain r where r: "ts ft = Some r" by (cases "ts fee_tier") (auto simp: ft_def)
  have "get_fee_rate fm exchange market_type fee_tier is_maker = Inr r"
    using ms(1) bs ts(1) r unfolding ex_def mt_def ot_def ft_def
    by (auto simp: get_fee_rate_def Let_def get_item_def split: if_splits)
  then show ?thesis ..
qed

lemma fallback_exchange:
  "fee_tiers fm exchange = None \<Longrightarrow>
   get_fee_rate fm exchange market_type fee_tier is_maker =
   get_fee_rate fm ''OKX'' market_type fee_tier is_maker"
  by (simp add: get_fee_rate_def)

lemma fallback_market_type:
  "fee_tiers fm exchange = Some ms \<Longrightarrow> ms market_type = None \<Longrightarrow>
   get_fee_rate fm exchange market_type fee_tier is_maker =
   get_fee_rate fm exchange ''spot'' fee_tier is_maker"
  by (simp add: get_fee_rate_def get_item_def Let_def)

lemma fallback_fee_tier:
  "fee_tiers fm exchange = Some ms \<Longrightarrow> ms market_type = Some bs \<Longrightarrow>
   bs (if is_maker then ''maker'' else ''taker'') = Some ts \<Longrightarrow> ts fee_tier = None \<Longrightarrow>
   get_fee_rate fm exchange market_type fee_tier is_maker =
   get_fee_rate fm exchange market_type ''VIP0'' is_maker"
  by (simp add: get_fee_rate_def get_item_def Let_def)

lemma complete_spot_only: "complete_markets spot_only"
  by (auto simp: complete_markets_def spot_only_def ran_def split: if_splits)

text \<open>
  C6 (amended). On a fee table that holds every default (\<open>OKX\<close>, \<open>spot\<close> under every
  exchange, both order types with \<open>VIP0\<close> under every market type), \<open>get_fee_rate\<close> returns
  a rate for all strings: an absent exchange is read as \<open>OKX\<close>, a market type absent
  under the exchange as \<open>spot\<close>, a tier absent from the selected bucket as \<open>VIP0\<close>. The
  default table is such a table, and \<open>add_exchange_fee_tiers\<close> keeps it one when the
  installed schedule holds the defaults.
\<close>

theorem get_fee_rate_fallbacks:
  assumes "complete_fee_table (fee_tiers fm)"
  shows
    "(\<exists>r. get_fee_rate fm e m t b = Inr r) \<and>
     (fee_tiers fm e = None \<longrightarrow>
        get_fee_rate fm e m t b = get_fee_rate fm ''OKX'' m t b) \<and>
     (\<forall>ms. fee_tiers fm e = Some ms \<and> ms m = None \<longrightarrow>
        get_fee_rate fm e m t b = get_fee_rate fm e ''spot'' t b) \<and>
     (\<forall>ms bs ts. fee_tiers fm e = Some ms \<and> ms m = Some bs \<and>
        bs (if b then ''maker'' else ''taker'') = Some ts \<and> ts t = None \<longrightarrow>
        get_fee_rate fm e m t b = get_fee_rate fm e m ''VIP0'' b) \<and>
     (\<forall>e' new. complete_markets new \<longrightarrow>
        complete_fee_table (fee_tiers (add_exchange_fee_tiers fm e' new)))"
  using get_fee_rate_total [OF assms] complete_add [OF assms]
  by (auto simp: fallback_exchange fallback_market_type fallback_fee_tier)

theorem get_fee_rate_fallbacks_witness:
  "complete_fee_table (fee_tiers init_fee_model) \<and>
   fee_tiers init_fee_model ''Binance'' = None \<and>
   get_fee_rate init_fee_model ''Binance'' ''swap'' ''VIP9'' True =
     get_fee_rate init_fee_model ''OKX'' ''swap'' ''VIP9'' True \<and>
   get_fee_rate init_fee_model ''OKX'' ''swap'' ''VIP9'' True = Inr 0.001 \<and>
   get_fee_rate init_fee_model ''OKX'' ''futures'' ''VIP3'' True = Inr (- 0.0001) \<and>
   complete_markets spot_only \<and>
   complete_fee_table (fee_tiers (add_exchange_fee_tiers init_fee_model ''Binance'' spot_only))"
proof -
  have n: "fee_tiers init_fee_model ''Binance'' = None"
    by (simp add: init_fee_model_def)
  have v: "get_fee_rate init_fee_model ''OKX'' ''swap'' ''VIP9'' True = Inr 0.001"
    "get_fee_rate init_fee_model ''OKX'' ''futures'' ''VIP3'' True = Inr (- 0.0001)"
    by (simp_all add: get_fee_rate_def get_item_def init_fee_model_def okx_fee_tiers_def)
  from get_fee_rate_fallbacks [OF complete_init, of "''Binance''" "''swap''" "''VIP9''" True]
    n v complete_init complete_spot_only
  show ?thesis by simp
qed

text \<open>
  C6 as stated fails for an installed schedule without \<open>spot\<close>: the fallback key is
  looked up and \<open>KeyError\<close> is raised.
\<close>

theorem get_fee_rate_counterexample:
  "get_fee_rate (add_exchange_fee_tiers init_fee_model ''Binance'' futures_only)
     ''Binance'' ''spot'' ''VIP0'' True = Inl KeyError"
  by (simp add: get_fee_rate_def get_item_def add_exchange_fee_tiers_def init_fee_model_def
      futures_only_def)

text \<open>
  C7 (amended). On a fee table that holds every default, \<open>calculate_fee\<close> returns the
  maker fee \<open>order_value * maker_proportion * maker_rate\<close>, the taker fee
  \<open>order_value * (1 - maker_proportion) * taker_rate\<close>, their sum as \<open>total_fee\<close>, and an
  \<open>effective_rate\<close> that is \<open>total_fee / order_value\<close> for a positive order value and 0
  for an order value that is zero or negative.
\<close>

theorem calculate_fee_split:
  assumes "complete_fee_table (fee_tiers fm)"
  shows
    "\<exists>maker_rate taker_rate f.
       get_fee_rate fm e m t True = Inr maker_rate \<and>
       get_fee_rate fm e m t False = Inr taker_rate \<and>
       calculate_fee fm order_value e m t (Finite maker_proportion) = Inr f \<and>
       maker_fee f = Finite (order_value * maker_proportion * maker_rate) \<and>
       taker_fee f = Finite (order_value * (1 - maker_proportion) * taker_rate) \<and>
       total_fee f = f_add (maker_fee f) (taker_fee f) \<and>
       total_fee f = Finite (order_value * maker_proportion * maker_rate +
                             order_value * (1 - maker_proportion) * taker_rate) \<and>
       (0 < order_value \<longrightarrow>
          effective_rate f = Finite ((order_value * maker_proportion * maker_rate +
                             order_value * (1 - maker_proportion) * taker_rate) / order_value)) \<and>
       (order_value \<le> 0 \<longrightarrow> effective_rate f = Finite 0)"
proof -
  from get_fee_rate_total [OF assms] obtain mr where mr: "get_fee_rate fm e m t True = Inr mr"
    by blast
  from get_fee_rate_total [OF assms] obtain tr where tr: "get_fee_rate fm e m t False = Inr tr"
    by blast
  show ?thesis
    by (simp add: calculate_fee_def mr tr Let_def f_sub_def)
qed

theorem calculate_fee_split_witness:
  "complete_fee_table (fee_tiers init_fee_model) \<and>
   (\<exists>f. calculate_fee init_fee_model 4500 ''OKX'' ''spot'' ''VIP0'' (Finite (1 / 2)) = Inr f \<and>
        total_fee f = f_add (maker_fee f) (taker_fee f) \<and>
        effective_rate f = Finite (1 / 800)) \<and>
   (\<exists>f. calculate_fee init_fee_model 0 ''OKX'' ''spot'' ''VIP0'' (Finite (1 / 2)) = Inr f \<and>
        effective_rate f = Finite 0)"
proof -
  have p: "(0::real) < 4500" and z: "(0::real) \<le> 0" by simp_all
  have r: "get_fee_rate init_fee_model ''OKX'' ''spot'' ''VIP0'' True = Inr 0.001"
    "get_fee_rate init_fee_model ''OKX'' ''spot'' ''VIP0'' False = Inr 0.0015"
    by (simp_all add: get_fee_rate_def get_item_def init_fee_model_def okx_fee_tiers_def)
  from calculate_fee_split [OF complete_init, of "''OKX''" "''spot''" "''VIP0''" 4500 "1 / 2"] p r
  have 1: "\<exists>f. calculate_fee init_fee_model 4500 ''OKX'' ''spot'' ''VIP0'' (Finite (1 / 2)) = Inr f \<and>
        total_fee f = f_add (maker_fee f) (taker_fee f) \<and>
        effective_rate f = Finite (1 / 800)"
    by auto
  from calculate_fee_split [OF complete_init, of "''OKX''" "''spot''" "''VIP0''" 0 "1 / 2"] z
  have 2: "\<exists>f. calculate_fee init_fee_model 0 ''OKX'' ''spot'' ''VIP0'' (Finite (1 / 2)) = Inr f \<and>
        effective_rate f = Finite 0"
    by blast
  from 1 2 complete_init show ?thesis by blast
qed

text \<open>
  C7 as stated fails for a negative order value: the guard is \<open>order_value > 0\<close>, so the
  effective rate is 0 and not \<open>total_fee / order_value\<close>.
\<close>

theorem calculate_fee_counterexample:
  "calculate_fee init_fee_model (- 100) ''OKX'' ''spot'' ''VIP0'' (Finite (1 / 2)) =
     Inr \<lparr>maker_fee = Finite (- 0.05), taker_fee = Finite (- 0.075),
          total_fee = Finite (- 0.125), effective_rate = Finite 0\<rparr> \<and>
   f_div (Finite (- 0.125)) (Finite (- 100)) = Finite 0.00125 \<and>
   Finite 0.00125 \<noteq> Finite 0"
  by (simp add: calculate_fee_def get_fee_rate_def get_item_def init_fee_model_def
      okx_fee_tiers_def f_sub_def)

section \<open>Properties of the simulator\<close>

lemma metrics_present:
  "asks ob \<noteq> [] \<Longrightarrow> bids ob \<noteq> [] \<Longrightarrow>
   get_mid_price ob \<noteq> None \<and> get_spread ob \<noteq> None \<and> get_orderbook_imbalance ob \<noteq> None"
  by (simp add: get_mid_price_def get_spread_def get_orderbook_imbalance_def Let_def)

lemma simulate_not_invalid:
  "simulate_market_order sim side quantity exch market_type fee_tier volatility
     \<noteq> Inr (ErrorResult ''Invalid orderbook metrics'')"
proof (cases "asks (sim_orderbook sim) = [] \<or> bids (sim_orderbook sim) = []")
  case True
  then show ?thesis by (simp add: simulate_market_order_def Let_def)
next
  case False
  with metrics_present [of "sim_orderbook sim"] obtain m s i where
    "get_mid_price (sim_orderbook sim) = Some m" "get_spread (sim_orderbook sim) = Some s"
    "get_orderbook_imbalance (sim_orderbook sim) = Some i" by auto
  with False show ?thesis
    by (simp add: simulate_market_order_def Let_def split: sum.splits)
qed

lemma okx_rates:
  "get_fee_rate init_fee_model ''OKX'' ''spot'' ''VIP0'' True = Inr 0.001"
  "get_fee_rate init_fee_model ''OKX'' ''spot'' ''VIP0'' False = Inr 0.0015"
  by (simp_all add: get_fee_rate_def get_item_def init_fee_model_def okx_fee_tiers_def)

lemma no_overflow_default: "\<not> pow_overflows (1 / 100)" "\<not> pow_overflows 0"
  by (rule pow_overflows_small, simp)+

lemma fitted_imbalance:
  "get_orderbook_imbalance ((init_orderbook 50)\<lparr>asks := [(100, 0)], bids := [(99, 0)]\<rparr>)
     = Some (Finite 0)"
  by (simp add: get_orderbook_imbalance_def py_sum_def)

text \<open>
  C1. \<open>simulate_market_order\<close> is to return an estimate or a tagged error for every
  quantity, 0 included. It does not: with a fitted slippage model and a book without
  volume, the sum of the slippage and the temporary impact is a Python float, and the
  quantity 0 makes its division raise \<open>ZeroDivisionError\<close>.
\<close>

theorem simulate_zero_quantity_raises:
  "simulate_market_order fitted_simulator ''buy'' 0 ''OKX'' ''spot'' ''VIP0'' 0.01
     = Inl ZeroDivisionError"
  by (simp add: simulate_market_order_def fitted_simulator_def trade_simulator_init_def
      get_mid_price_def get_spread_def fitted_imbalance maker_taker_model_init_def
      estimate_maker_proportion_def no_overflow_default
      calculate_fee_def okx_rates estimate_slippage_def calculate_market_impact_def
      almgren_chriss_default_def num_mul_def num_add_def num_op_def truediv_def Let_def)

text \<open>
  The state of \<open>fitted_simulator\<close> is reached through the interface: \<open>fit\<close> on ten
  samples, and \<open>update\<close> with a snapshot of one level a side.
\<close>

lemma fitted_simulator_reachable:
  "fit sklearn_stub (sim_slippage_model trade_simulator_init)
     (replicate 10 [1, 2, 3, 4]) (replicate 10 (1 / 2)) = Inr (sim_slippage_model fitted_simulator) \<and>
   asks (update (init_orderbook 50)
     \<lparr>s_timestamp = None, s_exchange = None, s_symbol = None,
      s_asks = Some [(100, 0)], s_bids = Some [(99, 0)]\<rparr>) = asks (sim_orderbook fitted_simulator) \<and>
   bids (update (init_orderbook 50)
     \<lparr>s_timestamp = None, s_exchange = None, s_symbol = None,
      s_asks = Some [(100, 0)], s_bids = Some [(99, 0)]\<rparr>) = bids (sim_orderbook fitted_simulator)"
  by (simp add: fit_def sklearn_stub_def trade_simulator_init_def fitted_simulator_def Let_def
      update_def init_orderbook_def get_levels_def slice_to_def)

text \<open>
  With the models as constructed (not fitted) the same sum is a \<open>numpy.float64\<close>: the
  division by the quantity 0 does not raise, and the execution price of the estimate is
  an infinity.
\<close>

lemma simulate_zero_quantity_default:
  "\<exists>c. simulate_market_order sample_simulator ''buy'' 0 ''OKX'' ''spot'' ''VIP0'' 0.01
          = Inr (CostEstimate c) \<and> ce_execution_price c = PosInf"
proof -
  have ob: "sim_orderbook sample_simulator = sample_book"
    by (simp add: sample_simulator_def)
  have m: "get_mid_price sample_book = Some 45000" "get_spread sample_book = Some 1"
    "asks sample_book \<noteq> []" "bids sample_book \<noteq> []"
    by (simp_all add: sample_book_def get_mid_price_def get_spread_def)
  show ?thesis
    unfolding simulate_market_order_def Let_def ob
    using m
    by (simp add: sample_imbalance no_overflow_default
        sample_simulator_def trade_simulator_init_def maker_taker_model_init_def
        estimate_maker_proportion_def
        calculate_fee_def okx_rates estimate_slippage_def estimate_slippage_fallback_def
        calculate_market_impact_def lower_def lower_char_def inf_of_sign_def
        almgren_chriss_default_def num_mul_def num_add_def num_op_def truediv_def Let_def)
qed

text \<open>The error for an empty book is returned exactly when a side is empty.\<close>

lemma empty_book_error_iff:
  "simulate_market_order sim side quantity exch market_type fee_tier volatility
     = Inr (ErrorResult ''Orderbook is empty'')
   \<longleftrightarrow> asks (sim_orderbook sim) = [] \<or> bids (sim_orderbook sim) = []"
proof (cases "asks (sim_orderbook sim) = [] \<or> bids (sim_orderbook sim) = []")
  case True
  then show ?thesis by (simp add: simulate_market_order_def Let_def)
next
  case False
  with metrics_present [of "sim_orderbook sim"] obtain m s i where
    "get_mid_price (sim_orderbook sim) = Some m" "get_spread (sim_orderbook sim) = Some s"
    "get_orderbook_imbalance (sim_orderbook sim) = Some i" by auto
  with False show ?thesis
    by (simp add: simulate_market_order_def Let_def split: sum.splits)
qed

text \<open>
  C10. When both sides of the book are non-empty, \<open>get_mid_price\<close>, \<open>get_spread\<close> and
  \<open>get_orderbook_imbalance\<close> all have a value; so \<open>simulate_market_order\<close>, which reads
  them only after the test for an empty side, never returns the error for invalid
  metrics.
\<close>

theorem invalid_metrics_unreachable:
  "(asks (sim_orderbook sim) \<noteq> [] \<and> bids (sim_orderbook sim) \<noteq> [] \<longrightarrow>
      get_mid_price (sim_orderbook sim) \<noteq> None \<and>
      get_spread (sim_orderbook sim) \<noteq> None \<and>
      get_orderbook_imbalance (sim_orderbook sim) \<noteq> None) \<and>
   simulate_market_order sim side quantity exch market_type fee_tier volatility
     \<noteq> Inr (ErrorResult ''Invalid orderbook metrics'')"
  using metrics_present [of "sim_orderbook sim"] simulate_not_invalid by blast

theorem invalid_metrics_unreachable_witness:
  "asks (sim_orderbook sample_simulator) \<noteq> [] \<and>
   bids (sim_orderbook sample_simulator) \<noteq> [] \<and>
   get_mid_price (sim_orderbook sample_simulator) = Some 45000 \<and>
   get_spread (sim_orderbook sample_simulator) = Some 1 \<and>
   get_orderbook_imbalance (sim_orderbook sample_simulator) \<noteq> None \<and>
   simulate_market_order sample_simulator ''buy'' 0.1 ''OKX'' ''spot'' ''VIP0'' 0.01
     \<noteq> Inr (ErrorResult ''Invalid orderbook metrics'')"
proof -
  have n: "asks (sim_orderbook sample_simulator) \<noteq> [] \<and> bids (sim_orderbook sample_simulator) \<noteq> []"
    by (simp add: sample_simulator_def sample_book_def)
  have v: "get_mid_price (sim_orderbook sample_simulator) = Some 45000"
    "get_spread (sim_orderbook sample_simulator) = Some 1"
    by (simp_all add: sample_simulator_def sample_book_def get_mid_price_def get_spread_def)
  from invalid_metrics_unreachable [of sample_simulator "''buy''" "0.1" "''OKX''" "''spot''" "''VIP0''" "0.01"]
    n v
  show ?thesis by simp
qed

text \<open>
  C3 (amended). Constructing a \<open>SlippageModel\<close> with a regression type other than
  \<open>linear\<close> and \<open>quantile\<close> succeeds, and the model estimates by its fallback formula. The
  type is rejected by \<open>fit\<close>: with at least 10 rows, once the scaler has been fitted,
  \<open>fit\<close> raises \<open>ValueError\<close>; with fewer rows \<open>fit\<close> returns and leaves the model as it
  was.
\<close>

theorem unknown_regression_type_raises_in_fit:
  assumes "rt \<noteq> ''linear''" and "rt \<noteq> ''quantile''"
  shows
    "\<exists>m. slippage_model_init rt q = Inr m \<and>
         regression_type m = rt \<and> \<not> is_fitted m \<and>
         estimate_slippage m order_size spread volatility imbalance =
           Inr (estimate_slippage_fallback order_size spread volatility imbalance) \<and>
         (length X < 10 \<longrightarrow> fit sk m X y = Inr m) \<and>
         (10 \<le> length X \<longrightarrow>
            (\<forall>transform. scaler_fit sk X = Inr transform \<longrightarrow> fit sk m X y = Inl ValueError) \<and>
            (\<forall>e. scaler_fit sk X = Inl e \<longrightarrow> fit sk m X y = Inl e))"
  using assms by (simp add: slippage_model_init_def fit_def estimate_slippage_def Let_def)

theorem unknown_regression_type_raises_in_fit_witness:
  "''cubic'' \<noteq> ''linear'' \<and> ''cubic'' \<noteq> ''quantile'' \<and>
   (\<exists>m. slippage_model_init ''cubic'' 0.5 = Inr m \<and>
        fit sklearn_stub m (replicate 9 [1, 2, 3, 4]) (replicate 9 0) = Inr m \<and>
        fit sklearn_stub m (replicate 10 [1, 2, 3, 4]) (replicate 10 0) = Inl ValueError)"
proof -
  have h: "''cubic'' \<noteq> ''linear''" "''cubic'' \<noteq> ''quantile''" by simp_all
  have s: "scaler_fit sklearn_stub X = Inr (\<lambda>row. row)" for X
    by (simp add: sklearn_stub_def)
  from unknown_regression_type_raises_in_fit [OF h, where q = "0.5" and order_size = 0
      and spread = 0 and volatility = 0 and imbalance = "Finite 0" and X = "replicate 9 [1, 2, 3, 4]"
      and sk = sklearn_stub and y = "replicate 9 0"]
  obtain m where m: "slippage_model_init ''cubic'' 0.5 = Inr m"
    "fit sklearn_stub m (replicate 9 [1, 2, 3, 4]) (replicate 9 0) = Inr m"
    by auto
  from unknown_regression_type_raises_in_fit [OF h, where q = "0.5" and order_size = 0
      and spread = 0 and volatility = 0 and imbalance = "Finite 0" and X = "replicate 10 [1, 2, 3, 4]"
      and sk = sklearn_stub and y = "replicate 10 0"] m(1) s
  have "fit sklearn_stub m (replicate 10 [1, 2, 3, 4]) (replicate 10 0) = Inl ValueError"
    by auto
  with m h show ?thesis by blast
qed

text \<open>C3 as stated fails: the constructor returns a model for the type \<open>cubic\<close>.\<close>

theorem construction_counterexample:
  "slippage_model_init ''cubic'' 0.5 =
     Inr \<lparr>regression_type = ''cubic'', quantile = 0.5, is_fitted = False,
          predict_row = (\<lambda>row. 0)\<rparr> \<and>
   ''cubic'' \<noteq> ''linear'' \<and> ''cubic'' \<noteq> ''quantile''"
  by (simp add: slippage_model_init_def)

section \<open>Properties of the execution schedule\<close>
















lemma default_bounds:
  "2 powi (- 10) \<le> risk_aversion almgren_chriss_default"
  "risk_aversion almgren_chriss_default \<le> 2 powi (- 9)"
  "2 powi (- 4) \<le> temporary_impact_factor almgren_chriss_default"
  "temporary_impact_factor almgren_chriss_default \<le> 2 powi (- 3)"
  "2 powi (- 7) \<le> rd 0.01" "rd 0.01 \<le> 2 powi (- 6)"
  "2 powi (- 34) \<le> rd (1 / 10 ^ 10)"
proof -
  have "2 powi (- 10) \<le> rd 0.001 \<and> rd 0.001 \<le> 2 powi (- 9)"
    by (rule rd_between) (simp_all add: power_int_minus)
  then show "2 powi (- 10) \<le> risk_aversion almgren_chriss_default"
    "risk_aversion almgren_chriss_default \<le> 2 powi (- 9)"
    by (simp_all add: almgren_chriss_default_def)
  have "2 powi (- 4) \<le> rd 0.1 \<and> rd 0.1 \<le> 2 powi (- 3)"
    by (rule rd_between) (simp_all add: power_int_minus)
  then show "2 powi (- 4) \<le> temporary_impact_factor almgren_chriss_default"
    "temporary_impact_factor almgren_chriss_default \<le> 2 powi (- 3)"
    by (simp_all add: almgren_chriss_default_def)
  have "2 powi (- 7) \<le> rd 0.01 \<and> rd 0.01 \<le> 2 powi (- 6)"
    by (rule rd_between) (simp_all add: power_int_minus)
  then show "2 powi (- 7) \<le> rd 0.01" "rd 0.01 \<le> 2 powi (- 6)" by simp_all
  show "2 powi (- 34) \<le> rd (1 / 10 ^ 10)"
    by (rule rd_ge_pow2) (simp_all add: power_int_minus)
qed

lemma default_alpha:
  "\<exists>a. alpha_of almgren_chriss_default (Finite (rd 0.01)) = Inr (Finite a) \<and>
       2 powi (- 24) \<le> a \<and> a \<le> 2 powi (- 21)"
proof -
  note b = default_bounds
  from fl_mul_between [OF b(5,6) b(5,6)] obtain v2 where
    v2: "fl (rd 0.01 * rd 0.01) = Finite v2" "2 powi (- 14) \<le> v2" "v2 \<le> 2 powi (- 12)"
    by auto
  then have no: "\<not> pow_overflows (rd 0.01)" by (simp add: pow_overflows_def)
  from fl_mul_between [OF b(1,2) v2(2,3)] obtain a where
    a: "fl (risk_aversion almgren_chriss_default * v2) = Finite a"
      "2 powi (- 24) \<le> a" "a \<le> 2 powi (- 21)"
    by auto
  have "alpha_of almgren_chriss_default (Finite (rd 0.01)) = Inr (Finite a)"
    unfolding alpha_of_def py_pow2.simps using no v2(1) a(1) by simp
  with a show ?thesis by blast
qed

lemma default_kappa:
  assumes "2 powi (- 24) \<le> a" and "a \<le> 2 powi (- 21)"
  shows "\<exists>k. kappa almgren_chriss_default (Finite a) = Finite k \<and>
           2 powi (- 14) \<le> k \<and> k \<le> 2 powi (- 12)"
proof -
  note b = default_bounds
  from fl_mul_between [OF assms b(3,4)] obtain p where
    p: "fl (a * temporary_impact_factor almgren_chriss_default) = Finite p"
      "2 powi (- 28) \<le> p" "p \<le> 2 powi (- 24)"
    by auto
  have p0: "0 \<le> p" using p(2) by (simp add: power_int_minus) 
  have lo: "2 powi (- 14) \<le> sqrt p"
    using p(2) by (intro real_le_rsqrt) (simp add: power_int_minus power2_eq_square)
  have hi: "sqrt p \<le> 2 powi (- 12)"
    using p(3) p0 by (intro real_le_lsqrt) (simp_all add: power_int_minus power2_eq_square)
  from fl_between [OF lo _ hi] obtain k where
    k: "fl (sqrt p) = Finite k" "2 powi (- 14) \<le> k" "k \<le> 2 powi (- 12)"
    by auto
  have "kappa almgren_chriss_default (Finite a) = Finite k"
    unfolding kappa_def using p(1) k(1) p0 by simp
  with k show ?thesis by blast
qed



lemma n_intervals_values:
  "n_intervals (Finite 0) = Inr 2" "n_intervals (Finite (1 / 2)) = Inr 2"
  "n_intervals (Finite 1) = Inr 4"
  by (simp_all add: n_intervals_def int_of_float_def fl_small_ints)

lemma upt_2: "[0..<2] = [0, Suc 0]" "[Suc 0..<2] = [Suc 0]"
  by (simp_all add: upt_rec)

lemma linspace_values:
  "linspace (Finite 0) 2 = [Finite 0, Finite 0]"
  "linspace (Finite (1 / 2)) 2 = [Finite 0, Finite (1 / 2)]"
  by (simp_all add: linspace_def Let_def upt_2 fl_small_ints)

lemma tolerance_pos: "\<not> rd (1 / 10 ^ 10) < 0"
proof -
  have "(0::real) < 2 powi (- 34)" by simp
  with default_bounds(7) show ?thesis by linarith
qed

lemma no_correction_100: "\<not> correction_due (Finite 100) [Finite 100, Finite 0]"
  using tolerance_pos by (simp add: correction_due_def np_sum_def fl_small_ints)



text \<open>
  In the branch \<open>alpha == 0\<close> the horizon 0 gives a schedule that trades the total: two
  slices of sizes 100 and 0.
\<close>

lemma zero_horizon_neutral:
  "calculate_optimal_execution_schedule almgren_chriss_default (Finite 100) (Finite 0) (Finite 0)
     = Inr ([Finite 0, Finite 0], [Finite 100, Finite 0])"
proof -
  have a: "alpha_of almgren_chriss_default (Finite 0) = Inr (Finite 0)"
    by (simp add: alpha_of_def pow_overflows_def)
  have t: "trade_sizes_neutral (Finite 100) 2 = [Finite 100, Finite 0]"
    by (simp add: trade_sizes_neutral_def fl_small_ints)
  show ?thesis
    unfolding calculate_optimal_execution_schedule_def Let_def
    using no_correction_100
    by (simp add: n_intervals_values a linspace_values t adjust_final_def)
qed

text \<open>
  C4. The sizes of a schedule are to add up to \<open>total_size\<close> for every horizon. For the
  horizon 0 in the branch \<open>alpha \<noteq> 0\<close> they do not: the two time points are both 0, the
  trajectory divides \<open>sinh 0\<close> by \<open>sinh 0\<close>, the remaining inventory at the second point
  is a NaN, and so are both sizes; the final step, whose comparison with a NaN is false,
  leaves them.
\<close>

theorem zero_horizon_sizes_nan:
  "calculate_optimal_execution_schedule almgren_chriss_default (Finite 100) (Finite 0)
     (Finite (rd 0.01)) = Inr ([Finite 0, Finite 0], [NaN, NaN])"
proof -
  from default_alpha obtain a where
    a: "alpha_of almgren_chriss_default (Finite (rd 0.01)) = Inr (Finite a)"
      "2 powi (- 24) \<le> a" "a \<le> 2 powi (- 21)" by blast
  have "(0::real) < 2 powi (- 24)" by simp
  with a(2) have nz: "Finite a \<noteq> Finite 0" by simp
  from default_kappa [OF a(2,3)] obtain k where
    k: "kappa almgren_chriss_default (Finite a) = Finite k" by blast
  have f: "remaining_factor almgren_chriss_default (Finite a) (Finite 0) (Finite 0) = NaN"
    by (simp add: remaining_factor_def sinh_term_def k inf_of_sign_def)
  have r: "remaining_sizes almgren_chriss_default (Finite 100) (Finite 0) (Finite a)
      [Finite 0, Finite 0] = [Finite 100, NaN]"
    by (simp add: remaining_sizes_def upt_2 f)
  have t: "trade_sizes_averse [Finite 100, NaN] = [NaN, NaN]"
    by (simp add: trade_sizes_averse_def f_sub_def)
  have c: "\<not> correction_due (Finite 100) [NaN, NaN]"
    by (simp add: correction_due_def np_sum_def f_sub_def)
  show ?thesis
    unfolding calculate_optimal_execution_schedule_def Let_def
    using nz c a(1)
    by (simp add: n_intervals_values linspace_values r t adjust_final_def)
qed

end
